theory Spec2Isabelle
  imports Main "HOL-Library.Sublist"
begin

section \<open>Diagnostics and the joint classification\<close>

text \<open>
  The error codes that \<open>Joint.cc\<close> pushes onto its \<open>Errors\<close> list, and the \<open>JointType\<close>
  enumeration with its \<open>INVALID\<close> sentinel. An \<open>Error\<close> is a code with its message.
\<close>

datatype ErrorCode =
    ELEMENT_INCORRECT_TYPE
  | ATTRIBUTE_MISSING
  | ELEMENT_MISSING
  | ATTRIBUTE_INVALID
  | FUNCTION_ARGUMENT_MISSING

datatype Error = Error (Code: ErrorCode) (Message: string)

type_synonym Errors = "Error list"

datatype JointType =
    INVALID | BALL | CONTINUOUS | FIXED | GEARBOX | PRISMATIC
  | REVOLUTE | REVOLUTE2 | SCREW | UNIVERSAL

text \<open>
  What a call can end in other than a normal return. \<open>EmptyLookupDeref\<close> is the
  dereference of \<open>begin()\<close> of an empty lookup result (undefined behaviour in C++);
  \<open>NotFound\<close> and \<open>NoPath\<close> are the reported failures of the graph and of the pose
  resolver.
\<close>

datatype Fault = EmptyLookupDeref | NotFound | NoPath

section \<open>The parsed element\<close>

text \<open>
  Modelled from the spec: \<open>sdf::Element\<close> (its implementation is not part of
  \<open>Joint.cc\<close>). The in-memory contract is a kind tag, a mapping from attribute or child
  name to its text value, and child elements queryable by tag. \<open>poseValue\<close> is what the
  \<open>pose\<close> child holds when there is one: the parsed pose and the text of its \<open>frame\<close>
  attribute (empty when the attribute is not written).
\<close>

datatype 'p Element = Element
  (GetName: string)
  (attributes: "(string \<times> string) list")
  (poseValue: "('p \<times> string) option")
  (children: "(string \<times> 'p Element) list")

text \<open>
  Modelled from the spec: \<open>Get<std::string>(key, default)\<close> of \<open>sdf::Element\<close>, the
  value under the key with the flag true, or the default with the flag false.
\<close>

definition Get :: "'p Element \<Rightarrow> string \<Rightarrow> string \<Rightarrow> string \<times> bool" where
  "Get e key dflt =
     (case map_of (attributes e) key of
        Some v \<Rightarrow> (v, True)
      | None \<Rightarrow> (dflt, False))"

text \<open>
  Modelled from the spec: \<open>HasElement(tag)\<close> and \<open>GetElement(tag)\<close> of \<open>sdf::Element\<close>.
  \<open>Load\<close> calls the second only after the first has answered true, so one lookup
  returning an option stands for the pair: \<open>None\<close> is \<open>HasElement\<close> answering false.
\<close>

definition GetElement :: "'p Element \<Rightarrow> string \<Rightarrow> 'p Element option" where
  "GetElement e tag = map_of (children e) tag"

text \<open>
  Modelled from the spec: \<open>loadName\<close> of \<open>Utils.cc\<close> (not part of \<open>Joint.cc\<close>): extract
  the identifying name; when it is missing the empty name is used and the flag is false.
\<close>

definition loadName :: "'p Element \<Rightarrow> string \<times> bool" where
  "loadName e = Get e ''name'' ''''"

text \<open>
  Modelled from the spec: \<open>loadPose\<close> of \<open>Utils.cc\<close> (not part of \<open>Joint.cc\<close>): extract
  the optional local pose and its frame name into the two output parameters; without a
  pose both are left as they were and the flag is false.
\<close>

definition loadPose :: "'p Element \<Rightarrow> 'p \<Rightarrow> string \<Rightarrow> bool \<times> 'p \<times> string" where
  "loadPose e p f =
     (case poseValue e of
        Some (p', f') \<Rightarrow> (True, p', f')
      | None \<Rightarrow> (False, p, f))"

section \<open>The frame graph\<close>

text \<open>
  Modelled from the spec: \<open>FrameGraph\<close>, a directed graph of the math library (its code
  is not part of \<open>Joint.cc\<close>). A vertex has a graph-assigned id, a name that need not
  be unique and a transform as payload; an edge is an ordered pair of ids with a signed
  direction marker. Vertices and edges are kept in insertion order.
\<close>

type_synonym VertexId = nat

record 'm Vertex =
  Id :: VertexId
  VName :: string
  Data :: 'm

record Edge =
  From :: VertexId
  To :: VertexId
  Direction :: int

record 'm FrameGraph =
  vertices :: "'m Vertex list"
  edges :: "Edge list"

text \<open>
  Modelled from the spec: the fresh unique id that \<open>AddVertex\<close> assigns, one above every
  id in the graph (vertices are never deleted, so no id is ever reused).
\<close>

definition NextVertexId :: "'m FrameGraph \<Rightarrow> VertexId" where
  "NextVertexId g = foldr (\<lambda>v n. max (Suc (Id v)) n) (vertices g) 0"

text \<open>
  Modelled from the spec: \<open>AddVertex(name, transform)\<close> inserts a vertex with a fresh id
  and returns it; it never fails and does not merge equal names.
\<close>

definition AddVertex :: "string \<Rightarrow> 'm \<Rightarrow> 'm FrameGraph \<Rightarrow> 'm Vertex \<times> 'm FrameGraph" where
  "AddVertex name payload g =
     (let v = \<lparr>Id = NextVertexId g, VName = name, Data = payload\<rparr>
      in (v, g\<lparr>vertices := vertices g @ [v]\<rparr>))"

text \<open>
  Modelled from the spec: \<open>VertexFromId(id)\<close> finds the vertex of an id; \<open>None\<close> is the
  failure for an absent id.
\<close>

definition VertexFromId :: "VertexId \<Rightarrow> 'm FrameGraph \<Rightarrow> 'm Vertex option" where
  "VertexFromId i g = find (\<lambda>v. Id v = i) (vertices g)"

text \<open>
  Modelled from the spec: \<open>AddEdge((fromId, toId), direction)\<close> fails, without changing
  the graph, when either id is absent.
\<close>

definition AddEdge :: "VertexId \<times> VertexId \<Rightarrow> int \<Rightarrow> 'm FrameGraph \<Rightarrow> 'm FrameGraph" where
  "AddEdge vs d g =
     (if VertexFromId (fst vs) g \<noteq> None \<and> VertexFromId (snd vs) g \<noteq> None
      then g\<lparr>edges := edges g @ [\<lparr>From = fst vs, To = snd vs, Direction = d\<rparr>]\<rparr>
      else g)"

text \<open>
  Modelled from the spec: \<open>Vertices(name)\<close> returns all vertices under that name, in
  insertion order, as pairs of id and vertex.
\<close>

definition Vertices :: "string \<Rightarrow> 'm FrameGraph \<Rightarrow> (VertexId \<times> 'm Vertex) list" where
  "Vertices name g = map (\<lambda>v. (Id v, v)) (filter (\<lambda>v. VName v = name) (vertices g))"

text \<open>
  Modelled from the spec: assignment through the reference that
  \<open>VertexFromId(i).Data()\<close> returns. The payload of the vertex found under \<open>i\<close> is
  replaced, every other vertex is left alone.
\<close>

fun SetData :: "VertexId \<Rightarrow> 'm \<Rightarrow> 'm Vertex list \<Rightarrow> 'm Vertex list" where
  "SetData i m [] = []"
| "SetData i m (v # vs) = (if Id v = i then v\<lparr>Data := m\<rparr> # vs else v # SetData i m vs)"

section \<open>The joint\<close>

text \<open>
  Arguments are written \<open>a_sdf\<close>, \<open>a_frameGraph\<close> for the source's \<open>_sdf\<close>,
  \<open>_frameGraph\<close>. Graphs are shared between the entities of a document through
  \<open>shared_ptr\<close>, so they live in a store indexed by address; a null pointer is \<open>None\<close>.
  \<open>JointPrivate\<close> has the fields of the class of that name, the array of two axes as
  two fields; \<open>frameGraph\<close> is never null once the constructor has run, so the field is
  an address.
\<close>

type_synonym addr = nat

type_synonym 'm Store = "addr \<Rightarrow> 'm FrameGraph"

record ('p, 'ax) JointPrivate =
  parentLinkName :: string
  childLinkName :: string
  type :: JointType
  pose :: 'p
  poseFrame :: string
  axis0 :: "'ax option"
  axis1 :: "'ax option"
  frameGraph :: addr
  frameVertexId :: VertexId
  sdf :: "'p Element option"

text \<open>
  \<open>Joint::Joint()\<close>. \<open>Zero\<close> is \<open>Pose3d::Zero\<close>, \<open>Identity\<close> is \<open>Matrix4d::Identity\<close>, and
  \<open>a\<close> is the address at which \<open>new FrameGraph\<close> places the joint's own graph.
\<close>

definition Joint :: "'p \<Rightarrow> 'm \<Rightarrow> addr \<Rightarrow> 'm Store \<Rightarrow> ('p, 'ax) JointPrivate \<times> 'm Store" where
  "Joint Zero Identity a st =
     (let (v, g) = AddVertex '''' Identity \<lparr>vertices = [], edges = []\<rparr>
      in (\<lparr>parentLinkName = '''', childLinkName = '''', type = INVALID, pose = Zero,
           poseFrame = '''', axis0 = None, axis1 = None, frameGraph = a,
           frameVertexId = Id v, sdf = None\<rparr>,
          st(a := g)))"

text \<open>
  \<open>std::tolower\<close> on one byte, in the C locale: the letters A to Z go to a to z, every
  other byte is returned as it is.
\<close>

definition tolower :: "char \<Rightarrow> char" where
  "tolower c =
     (case map_of (zip ''ABCDEFGHIJKLMNOPQRSTUVWXYZ'' ''abcdefghijklmnopqrstuvwxyz'') c of
        Some l \<Rightarrow> l
      | None \<Rightarrow> c)"

text \<open>Lines 165 to 206 of \<open>Load\<close>: read the type; the result is the new type and the diagnostics.\<close>

definition Load_type :: "'p Element \<Rightarrow> JointType \<Rightarrow> JointType \<times> Errors" where
  "Load_type a_sdf t =
     (let typePair = Get a_sdf ''type'' ''''
      in if snd typePair then
           (let s = map tolower (fst typePair)
            in if s = ''ball'' then (BALL, [])
               else if s = ''continuous'' then (CONTINUOUS, [])
               else if s = ''fixed'' then (FIXED, [])
               else if s = ''gearbox'' then (GEARBOX, [])
               else if s = ''prismatic'' then (PRISMATIC, [])
               else if s = ''revolute'' then (REVOLUTE, [])
               else if s = ''revolute2'' then (REVOLUTE2, [])
               else if s = ''screw'' then (SCREW, [])
               else if s = ''universal'' then (UNIVERSAL, [])
               else (INVALID,
                     [Error ATTRIBUTE_INVALID
                        (''Joint type of '' @ s @
                         '' is invalid. Refer to the SDF documentation for a list of '' @
                         ''valid joint types'')]))
         else (t, [Error ATTRIBUTE_MISSING ''A joint type is required, but is not set.'']))"

text \<open>
  Lines 151 to 163 of \<open>Load\<close>: one axis slot. \<open>JointAxis_Load\<close> stands for making a
  \<open>JointAxis\<close> and calling its \<open>Load\<close> on the child element (\<open>JointAxis.cc\<close> is not part
  of \<open>Joint.cc\<close>): it gives the loaded axis and its diagnostics.
\<close>

definition Load_axis ::
  "('p Element \<Rightarrow> 'ax \<times> Errors) \<Rightarrow> 'p Element \<Rightarrow> string \<Rightarrow> 'ax option \<Rightarrow> 'ax option \<times> Errors" where
  "Load_axis JointAxis_Load a_sdf tag old =
     (case GetElement a_sdf tag of
        Some el \<Rightarrow> (let (ax, axisErrors) = JointAxis_Load el in (Some ax, axisErrors))
      | None \<Rightarrow> (old, []))"

text \<open>
  Lines 208 to 235 of \<open>Load\<close>: the frame graph. \<open>Matrix4d\<close> is the constructor of a
  transform from a pose. The lookup result is dereferenced at \<open>begin()\<close> without a check,
  which is the fault \<open>EmptyLookupDeref\<close> when the result is empty.
\<close>

definition Load_frameGraph ::
  "('p \<Rightarrow> 'm) \<Rightarrow> string \<Rightarrow> ('p, 'ax) JointPrivate \<Rightarrow> addr option \<Rightarrow> 'm Store
     \<Rightarrow> Fault + (Errors \<times> ('p, 'ax) JointPrivate \<times> 'm Store)" where
  "Load_frameGraph Matrix4d jointName d a_frameGraph st =
     (case a_frameGraph of
        Some a \<Rightarrow>
          (let (v, g1) = AddVertex jointName (Matrix4d (pose d)) (st a);
               d1 = d\<lparr>frameVertexId := Id v\<rparr>;
               parentVertices = Vertices (poseFrame d1) g1
           in case parentVertices of
                [] \<Rightarrow> Inl EmptyLookupDeref
              | pv # _ \<Rightarrow>
                  (let g2 = AddEdge (fst pv, frameVertexId d1) (- 1) g1;
                       g3 = AddEdge (frameVertexId d1, fst pv) 1 g2
                   in Inr ([], d1\<lparr>frameGraph := a\<rparr>, st(a := g3))))
      | None \<Rightarrow>
          Inr ([Error FUNCTION_ARGUMENT_MISSING
                  ''A frame graph is required to compute pose information.''],
               d, st))"

text \<open>
  Lines 114 to 163 of \<open>Load\<close>: name, parent, child, pose with its default frame, and the
  two axes. The result is the joint name, the updated fields and the diagnostics so far.
\<close>

definition Load_fields ::
  "('p Element \<Rightarrow> 'ax \<times> Errors) \<Rightarrow> ('p, 'ax) JointPrivate \<Rightarrow> 'p Element
     \<Rightarrow> string \<times> ('p, 'ax) JointPrivate \<times> Errors" where
  "Load_fields JointAxis_Load d a_sdf =
     (let (jointName, nameOk) = loadName a_sdf;
          errors1 = (if nameOk then []
                     else [Error ATTRIBUTE_MISSING
                             ''A joint name is required, but the name is not set.'']);
          parentPair = Get a_sdf ''parent'' '''';
          d1 = (if snd parentPair then d\<lparr>parentLinkName := fst parentPair\<rparr> else d);
          errors2 = errors1 @ (if snd parentPair then []
                               else [Error ELEMENT_MISSING ''The parent element is missing.'']);
          childPair = Get a_sdf ''child'' '''';
          d2 = (if snd childPair then d1\<lparr>childLinkName := fst childPair\<rparr> else d1);
          errors3 = errors2 @ (if snd childPair then []
                               else [Error ELEMENT_MISSING ''The child element is missing.'']);
          (poseOk, p, f) = loadPose a_sdf (pose d2) (poseFrame d2);
          d3 = d2\<lparr>pose := p, poseFrame := f\<rparr>;
          d4 = (if poseFrame d3 = [] then d3\<lparr>poseFrame := childLinkName d3\<rparr> else d3);
          (ax0, axisErrors0) = Load_axis JointAxis_Load a_sdf ''axis'' (axis0 d4);
          (ax1, axisErrors1) = Load_axis JointAxis_Load a_sdf ''axis2'' (axis1 d4);
          d5 = d4\<lparr>axis0 := ax0, axis1 := ax1\<rparr>
      in (jointName, d5, errors3 @ axisErrors0 @ axisErrors1))"

text \<open>
  \<open>Joint::Load\<close>. The state is the joint's private data and the store of graphs; the
  result is a fault, or the returned diagnostics with the new state.
\<close>

definition Load ::
  "('p \<Rightarrow> 'm) \<Rightarrow> ('p Element \<Rightarrow> 'ax \<times> Errors) \<Rightarrow> ('p, 'ax) JointPrivate \<Rightarrow> 'p Element
     \<Rightarrow> addr option \<Rightarrow> 'm Store \<Rightarrow> Fault + (Errors \<times> ('p, 'ax) JointPrivate \<times> 'm Store)" where
  "Load Matrix4d JointAxis_Load d a_sdf a_frameGraph st =
     (let d0 = d\<lparr>sdf := Some a_sdf\<rparr>
      in if GetName a_sdf \<noteq> ''joint'' then
           Inr ([Error ELEMENT_INCORRECT_TYPE
                   (''Attempting to load a Joint, but the provided SDF element is not a '' @
                    ''<joint>.'')],
                d0, st)
         else
           (let (jointName, d5, errors) = Load_fields JointAxis_Load d0 a_sdf;
                (t, typeErrors) = Load_type a_sdf (type d5);
                d6 = d5\<lparr>type := t\<rparr>
            in case Load_frameGraph Matrix4d jointName d6 a_frameGraph st of
                 Inl fault \<Rightarrow> Inl fault
               | Inr (graphErrors, d7, st') \<Rightarrow>
                   Inr (errors @ typeErrors @ graphErrors, d7, st')))"

section \<open>Operations after load\<close>

text \<open>
  \<open>Joint::Name\<close> reads the name of the joint's vertex. Following the spec's
  \<open>VertexFromId\<close>, an id that is not in the graph is the failure \<open>NotFound\<close>.
\<close>

definition Name :: "('p, 'ax) JointPrivate \<Rightarrow> 'm Store \<Rightarrow> Fault + string" where
  "Name d st =
     (case VertexFromId (frameVertexId d) (st (frameGraph d)) of
        Some v \<Rightarrow> Inr (VName v)
      | None \<Rightarrow> Inl NotFound)"

definition Type :: "('p, 'ax) JointPrivate \<Rightarrow> JointType" where
  "Type d = type d"

definition ParentLinkName :: "('p, 'ax) JointPrivate \<Rightarrow> string" where
  "ParentLinkName d = parentLinkName d"

definition SetParentLinkName ::
  "string \<Rightarrow> ('p, 'ax) JointPrivate \<Rightarrow> 'm Store \<Rightarrow> ('p, 'ax) JointPrivate \<times> 'm Store" where
  "SetParentLinkName a_name d st = (d\<lparr>parentLinkName := a_name\<rparr>, st)"

definition ChildLinkName :: "('p, 'ax) JointPrivate \<Rightarrow> string" where
  "ChildLinkName d = childLinkName d"

definition SetChildLinkName ::
  "string \<Rightarrow> ('p, 'ax) JointPrivate \<Rightarrow> 'm Store \<Rightarrow> ('p, 'ax) JointPrivate \<times> 'm Store" where
  "SetChildLinkName a_name d st = (d\<lparr>childLinkName := a_name\<rparr>, st)"

definition Pose :: "('p, 'ax) JointPrivate \<Rightarrow> 'p" where
  "Pose d = pose d"

definition PoseFrame :: "('p, 'ax) JointPrivate \<Rightarrow> string" where
  "PoseFrame d = poseFrame d"

text \<open>
  \<open>Joint::SetPose\<close>: the payload of the joint's vertex is overwritten through
  \<open>VertexFromId\<close>, then the pose field.
\<close>

definition SetPose ::
  "('p \<Rightarrow> 'm) \<Rightarrow> 'p \<Rightarrow> ('p, 'ax) JointPrivate \<Rightarrow> 'm Store
     \<Rightarrow> Fault + (('p, 'ax) JointPrivate \<times> 'm Store)" where
  "SetPose Matrix4d a_pose d st =
     (let g = st (frameGraph d)
      in case VertexFromId (frameVertexId d) g of
           None \<Rightarrow> Inl NotFound
         | Some v \<Rightarrow>
             Inr (d\<lparr>pose := a_pose\<rparr>,
                  st(frameGraph d :=
                       g\<lparr>vertices := SetData (frameVertexId d) (Matrix4d a_pose) (vertices g)\<rparr>)))"

text \<open>\<open>Joint::SetPoseFrame\<close>: the returned flag and the new state.\<close>

definition SetPoseFrame ::
  "string \<Rightarrow> ('p, 'ax) JointPrivate \<Rightarrow> 'm Store \<Rightarrow> bool \<times> ('p, 'ax) JointPrivate \<times> 'm Store" where
  "SetPoseFrame a_frame d st =
     (if a_frame = [] then (False, d, st)
      else (True, d\<lparr>poseFrame := a_frame\<rparr>, st))"

text \<open>
  Modelled from the spec: \<open>poseInFrame\<close> of \<open>Utils.cc\<close> (not part of \<open>Joint.cc\<close>), the
  pose resolver. Each name is resolved with \<open>Vertices\<close>, the first inserted vertex is
  used, and a name with no vertex is \<open>NotFound\<close>; equal names give the identity
  without a search; otherwise the path search decides between a composed pose and
  \<open>NoPath\<close>. The search with its composition of transforms is the parameter \<open>search\<close>,
  and \<open>IdentityPose\<close> is the pose of the identity transform.
\<close>

definition poseInFrame ::
  "('m FrameGraph \<Rightarrow> VertexId \<Rightarrow> VertexId \<Rightarrow> 'p option) \<Rightarrow> 'p \<Rightarrow> string \<Rightarrow> string
     \<Rightarrow> 'm FrameGraph \<Rightarrow> Fault + 'p" where
  "poseInFrame search IdentityPose src dst g =
     (case Vertices src g of
        [] \<Rightarrow> Inl NotFound
      | s # _ \<Rightarrow>
          (case Vertices dst g of
             [] \<Rightarrow> Inl NotFound
           | t # _ \<Rightarrow>
               if src = dst then Inr IdentityPose
               else (case search g (fst s) (fst t) of
                       None \<Rightarrow> Inl NoPath
                     | Some p \<Rightarrow> Inr p)))"

text \<open>\<open>Joint::PoseInFrame\<close>: the resolver on the joint's name and the chosen frame.\<close>

definition PoseInFrame ::
  "('m FrameGraph \<Rightarrow> VertexId \<Rightarrow> VertexId \<Rightarrow> 'p option) \<Rightarrow> 'p \<Rightarrow> string
     \<Rightarrow> ('p, 'ax) JointPrivate \<Rightarrow> 'm Store \<Rightarrow> Fault + 'p" where
  "PoseInFrame search IdentityPose a_frame d st =
     (case Name d st of
        Inl fault \<Rightarrow> Inl fault
      | Inr n \<Rightarrow>
          poseInFrame search IdentityPose n
            (if a_frame = [] then PoseFrame d else a_frame)
            (st (frameGraph d)))"

section \<open>Concrete inputs\<close>

text \<open>
  A one-dimensional stand-in for the geometry, used to run the definitions: a pose is a
  translation along one axis and its transform is the same number, so the zero pose and
  the identity transform are both 0. The stand-in for loading an axis keeps the tag of
  the child element, and the stand-in for the path search finds no path.
\<close>

definition ex_Matrix4d :: "int \<Rightarrow> int" where
  "ex_Matrix4d p = p"

definition ex_JointAxis_Load :: "int Element \<Rightarrow> string \<times> Errors" where
  "ex_JointAxis_Load el = (GetName el, [])"

definition ex_search :: "int FrameGraph \<Rightarrow> VertexId \<Rightarrow> VertexId \<Rightarrow> int option" where
  "ex_search g s t = None"

text \<open>
  A store whose address 1 holds a document graph with the frames of two links, every
  other address holding an empty graph; and a joint constructed with its own graph at
  address 0.
\<close>

definition ex_graph :: "int FrameGraph" where
  "ex_graph =
     \<lparr>vertices = [\<lparr>Id = 0, VName = ''parent_link'', Data = 0\<rparr>,
                  \<lparr>Id = 1, VName = ''other'', Data = 0\<rparr>],
      edges = []\<rparr>"

definition ex_store :: "int Store" where
  "ex_store a = (if a = 1 then ex_graph else \<lparr>vertices = [], edges = []\<rparr>)"

definition ex_joint :: "(int, string) JointPrivate" where
  "ex_joint = fst (Joint 0 0 0 ex_store)"

definition ex_store0 :: "int Store" where
  "ex_store0 = snd (Joint 0 0 0 ex_store :: (int, string) JointPrivate \<times> int Store)"

text \<open>
  Elements: a joint whose pose is expressed in the frame \<open>other\<close>; the same joint
  without a pose; a joint without a child; a joint with a type that is not in the
  enumeration; and an element that is not a joint.
\<close>

definition ex_element :: "int Element" where
  "ex_element =
     Element ''joint''
       [(''name'', ''j''), (''parent'', ''parent_link''), (''child'', ''child_link''),
        (''type'', ''Revolute'')]
       (Some (5, ''other''))
       [(''axis'', Element ''axis'' [] None [])]"

definition ex_element_no_pose :: "int Element" where
  "ex_element_no_pose =
     Element ''joint''
       [(''name'', ''j''), (''parent'', ''parent_link''), (''child'', ''child_link''),
        (''type'', ''fixed'')]
       None []"

definition ex_element_no_child :: "int Element" where
  "ex_element_no_child =
     Element ''joint''
       [(''name'', ''j''), (''parent'', ''parent_link''), (''type'', ''fixed'')]
       None []"

definition ex_element_bad_type :: "int Element" where
  "ex_element_bad_type =
     Element ''joint''
       [(''name'', ''j''), (''parent'', ''parent_link''), (''child'', ''other''),
        (''type'', ''Hinge'')]
       None []"

definition ex_element_link :: "int Element" where
  "ex_element_link = Element ''link'' [(''name'', ''l'')] None []"

text \<open>
  The states that loading these elements into \<open>ex_joint\<close> ends in: \<open>ex_element\<close> with
  the graph at address 1, and the next three without a graph.
\<close>

definition ex_loaded :: "(int, string) JointPrivate" where
  "ex_loaded =
     ex_joint\<lparr>parentLinkName := ''parent_link'', childLinkName := ''child_link'',
              type := REVOLUTE, pose := 5, poseFrame := ''other'', axis0 := Some ''axis'',
              frameGraph := 1, frameVertexId := 2, sdf := Some ex_element\<rparr>"

definition ex_graph_loaded :: "int FrameGraph" where
  "ex_graph_loaded =
     \<lparr>vertices = [\<lparr>Id = 0, VName = ''parent_link'', Data = 0\<rparr>,
                  \<lparr>Id = 1, VName = ''other'', Data = 0\<rparr>,
                  \<lparr>Id = 2, VName = ''j'', Data = 5\<rparr>],
      edges = [\<lparr>From = 1, To = 2, Direction = - 1\<rparr>,
               \<lparr>From = 2, To = 1, Direction = 1\<rparr>]\<rparr>"

definition ex_loaded_no_pose :: "(int, string) JointPrivate" where
  "ex_loaded_no_pose =
     ex_joint\<lparr>parentLinkName := ''parent_link'', childLinkName := ''child_link'',
              type := FIXED, poseFrame := ''child_link'', sdf := Some ex_element_no_pose\<rparr>"

definition ex_loaded_no_child :: "(int, string) JointPrivate" where
  "ex_loaded_no_child =
     ex_joint\<lparr>parentLinkName := ''parent_link'', type := FIXED,
              sdf := Some ex_element_no_child\<rparr>"

definition ex_loaded_bad_type :: "(int, string) JointPrivate" where
  "ex_loaded_bad_type =
     ex_joint\<lparr>parentLinkName := ''parent_link'', childLinkName := ''other'',
              type := INVALID, poseFrame := ''other'', sdf := Some ex_element_bad_type\<rparr>"

text \<open>
  The state that loading \<open>ex_element_bad_type\<close> into \<open>ex_joint\<close> with the graph at
  address 1 ends in, and that graph afterwards.
\<close>

definition ex_loaded_bad_type_graph :: "(int, string) JointPrivate" where
  "ex_loaded_bad_type_graph =
     ex_joint\<lparr>parentLinkName := ''parent_link'', childLinkName := ''other'',
              type := INVALID, poseFrame := ''other'', frameGraph := 1, frameVertexId := 2,
              sdf := Some ex_element_bad_type\<rparr>"

definition ex_graph_bad_type :: "int FrameGraph" where
  "ex_graph_bad_type =
     \<lparr>vertices = [\<lparr>Id = 0, VName = ''parent_link'', Data = 0\<rparr>,
                  \<lparr>Id = 1, VName = ''other'', Data = 0\<rparr>,
                  \<lparr>Id = 2, VName = ''j'', Data = 0\<rparr>],
      edges = [\<lparr>From = 1, To = 2, Direction = - 1\<rparr>,
               \<lparr>From = 2, To = 1, Direction = 1\<rparr>]\<rparr>"

lemmas Load_defs =
  Load_def Load_fields_def Load_type_def Load_axis_def Load_frameGraph_def
  loadName_def loadPose_def Get_def GetElement_def AddVertex_def AddEdge_def
  VertexFromId_def Vertices_def NextVertexId_def tolower_def Let_def

section \<open>Facts about the frame graph\<close>

text \<open>
  The id that \<open>AddVertex\<close> hands out is above every id in the graph, hence fresh.
\<close>

lemma foldr_max_greater: "v \<in> set vs \<Longrightarrow> Id v < foldr (\<lambda>v n. max (Suc (Id v)) n) vs 0"
  by (induction vs) (auto simp: less_max_iff_disj)

lemma find_None_fresh: "find (\<lambda>v. Id v = foldr (\<lambda>v n. max (Suc (Id v)) n) vs 0) vs = None"
  using foldr_max_greater by (fastforce simp: find_None_iff)

lemma VertexFromId_NextVertexId: "VertexFromId (NextVertexId g) g = None"
  by (simp add: VertexFromId_def NextVertexId_def find_None_fresh)

lemma AddVertex_eq:
  "AddVertex n m g =
     (\<lparr>Id = NextVertexId g, VName = n, Data = m\<rparr>,
      g\<lparr>vertices := vertices g @ [\<lparr>Id = NextVertexId g, VName = n, Data = m\<rparr>]\<rparr>)"
  by (simp add: AddVertex_def Let_def)

text \<open>
  A vertex that a lookup by name returns is in the graph, so \<open>AddEdge\<close> between it and
  another vertex of the graph adds the edge.
\<close>

lemma VertexFromId_member: "v \<in> set (vertices g) \<Longrightarrow> VertexFromId (Id v) g \<noteq> None"
  by (auto simp: VertexFromId_def find_None_iff)

lemma Vertices_head_member: "Vertices n g = pv # rest \<Longrightarrow> snd pv \<in> set (vertices g) \<and> fst pv = Id (snd pv) \<and> VName (snd pv) = n"
proof -
  assume h: "Vertices n g = pv # rest"
  then have "pv \<in> set (Vertices n g)" by simp
  then show ?thesis by (auto simp: Vertices_def)
qed

lemma AddEdge_present:
  "VertexFromId i g \<noteq> None \<Longrightarrow> VertexFromId j g \<noteq> None \<Longrightarrow>
   AddEdge (i, j) d g = g\<lparr>edges := edges g @ [\<lparr>From = i, To = j, Direction = d\<rparr>]\<rparr>"
  by (simp add: AddEdge_def)

lemma VertexFromId_edges [simp]: "VertexFromId i (g\<lparr>edges := es\<rparr>) = VertexFromId i g"
  by (simp add: VertexFromId_def)

lemma Vertices_edges [simp]: "Vertices n (g\<lparr>edges := es\<rparr>) = Vertices n g"
  by (simp add: Vertices_def)

lemma Vertices_AddVertex:
  "Vertices f (snd (AddVertex n m g)) =
     Vertices f g @ (if n = f then [(NextVertexId g, \<lparr>Id = NextVertexId g, VName = n, Data = m\<rparr>)] else [])"
  by (simp add: AddVertex_eq Vertices_def)

text \<open>
  After \<open>SetData\<close>, a lookup of the same id finds the vertex with the new payload.
\<close>

lemma find_SetData:
  "find (\<lambda>u. Id u = i) (SetData i m vs) = map_option (\<lambda>v. v\<lparr>Data := m\<rparr>) (find (\<lambda>u. Id u = i) vs)"
  by (induction vs) auto

section \<open>Facts about \<open>Load\<close>\<close>

text \<open>
  The frame-graph step by cases: no graph, an empty lookup, a lookup with a first
  element.
\<close>

lemma Load_frameGraph_None:
  "Load_frameGraph M n d None st =
     Inr ([Error FUNCTION_ARGUMENT_MISSING ''A frame graph is required to compute pose information.''], d, st)"
  by (simp add: Load_frameGraph_def)

lemma Load_frameGraph_Some_empty:
  assumes "Vertices (poseFrame d) (snd (AddVertex n (M (pose d)) (st a))) = []"
  shows "Load_frameGraph M n d (Some a) st = Inl EmptyLookupDeref"
  using assms by (simp add: Load_frameGraph_def Let_def AddVertex_eq)

lemma Load_frameGraph_Some_Cons:
  assumes "Vertices (poseFrame d) (snd (AddVertex n (M (pose d)) (st a))) = pv # rest"
  shows "Load_frameGraph M n d (Some a) st =
     Inr ([], d\<lparr>frameVertexId := NextVertexId (st a), frameGraph := a\<rparr>,
          st(a := (st a)
                   \<lparr>vertices := vertices (st a) @
                      [\<lparr>Id = NextVertexId (st a), VName = n, Data = M (pose d)\<rparr>],
                    edges := edges (st a) @
                      [\<lparr>From = fst pv, To = NextVertexId (st a), Direction = - 1\<rparr>,
                       \<lparr>From = NextVertexId (st a), To = fst pv, Direction = 1\<rparr>]\<rparr>))"
proof -
  let ?new = "\<lparr>Id = NextVertexId (st a), VName = n, Data = M (pose d)\<rparr>"
  let ?g1 = "(st a)\<lparr>vertices := vertices (st a) @ [?new]\<rparr>"
  have g1: "AddVertex n (M (pose d)) (st a) = (?new, ?g1)" by (simp add: AddVertex_eq)
  from assms g1 have pv: "Vertices (poseFrame d) ?g1 = pv # rest" by simp
  from Vertices_head_member[OF pv] have "VertexFromId (fst pv) ?g1 \<noteq> None"
    using VertexFromId_member[of "snd pv" ?g1] by simp
  moreover have "VertexFromId (NextVertexId (st a)) ?g1 \<noteq> None"
    using VertexFromId_member[of ?new ?g1] by simp
  ultimately show ?thesis using pv g1
    by (simp add: Load_frameGraph_def Let_def AddEdge_present)
qed

lemma Load_frameGraph_fields:
  assumes "Load_frameGraph M n d fg st = Inr (gerrs, d', st')"
  shows "d' = d\<lparr>frameVertexId := frameVertexId d', frameGraph := frameGraph d'\<rparr>"
  using assms
  by (cases fg) (auto simp: Load_frameGraph_def Let_def AddVertex_eq split: list.splits)

text \<open>
  The fields after the parsing steps, and \<open>Load\<close> as the kind check followed, for a
  joint element, by the three steps in sequence.
\<close>

lemma Load_fields_result:
  assumes "Load_fields A d e = (n, d5, errs)"
  shows "n = fst (loadName e)"
    and "frameGraph d5 = frameGraph d"
    and "frameVertexId d5 = frameVertexId d"
    and "sdf d5 = sdf d"
    and "type d5 = type d"
    and "parentLinkName d5 =
           (if snd (Get e ''parent'' []) then fst (Get e ''parent'' []) else parentLinkName d)"
    and "childLinkName d5 =
           (if snd (Get e ''child'' []) then fst (Get e ''child'' []) else childLinkName d)"
    and "pose d5 = fst (snd (loadPose e (pose d) (poseFrame d)))"
    and "poseFrame d5 =
           (if snd (snd (loadPose e (pose d) (poseFrame d))) = [] then childLinkName d5
            else snd (snd (loadPose e (pose d) (poseFrame d))))"
  using assms
  by (auto simp: Load_fields_def Let_def split: prod.splits if_splits)

lemma Load_mismatch:
  assumes "GetName e \<noteq> ''joint''"
  shows "Load M A d e fg st =
           Inr ([Error ELEMENT_INCORRECT_TYPE
                   ''Attempting to load a Joint, but the provided SDF element is not a <joint>.''],
                d\<lparr>sdf := Some e\<rparr>, st)"
  using assms by (simp add: Load_def)

lemma Load_joint:
  assumes "GetName e = ''joint''"
    and "Load_fields A (d\<lparr>sdf := Some e\<rparr>) e = (n, d5, errs)"
    and "Load_type e (type d5) = (t, terrs)"
  shows "Load M A d e fg st =
           (case Load_frameGraph M n (d5\<lparr>type := t\<rparr>) fg st of
              Inl fault \<Rightarrow> Inl fault
            | Inr (gerrs, d7, st') \<Rightarrow> Inr (errs @ terrs @ gerrs, d7, st'))"
  using assms by (simp add: Load_def)

lemma Load_joint_result:
  assumes kind: "GetName e = ''joint''"
    and ret: "Load M A d e fg st = Inr (errs, d', st')"
  obtains n d5 ferrs t terrs gerrs where
    "Load_fields A (d\<lparr>sdf := Some e\<rparr>) e = (n, d5, ferrs)"
    "Load_type e (type d5) = (t, terrs)"
    "Load_frameGraph M n (d5\<lparr>type := t\<rparr>) fg st = Inr (gerrs, d', st')"
    "errs = ferrs @ terrs @ gerrs"
proof -
  obtain n d5 ferrs where f: "Load_fields A (d\<lparr>sdf := Some e\<rparr>) e = (n, d5, ferrs)"
    by (cases "Load_fields A (d\<lparr>sdf := Some e\<rparr>) e") auto
  obtain t terrs where t: "Load_type e (type d5) = (t, terrs)"
    by (cases "Load_type e (type d5)") auto
  from ret Load_joint [OF kind f t, of M fg st]
  obtain gerrs where "Load_frameGraph M n (d5\<lparr>type := t\<rparr>) fg st = Inr (gerrs, d', st')"
    and "errs = ferrs @ terrs @ gerrs"
    by (auto split: sum.splits)
  with f t that show thesis by blast
qed

text \<open>
  \<open>tolower\<close> by character codes: the codes 65 to 90 (A to Z) go up by 32, every other
  code is kept.
\<close>

lemma char_eq_nat: "(c::char) = d \<longleftrightarrow> (of_char c :: nat) = of_char d"
  by simp

lemma tolower_ascii:
  "(of_char (tolower c) :: nat) =
     (if 65 \<le> (of_char c :: nat) \<and> (of_char c :: nat) \<le> 90 then of_char c + 32 else of_char c)"
proof -
  define n where "n = (of_char c :: nat)"
  have eqs: "\<And>k. (c = k) = (n = of_char k)"
    unfolding n_def by (rule char_eq_nat)
  show ?thesis
    unfolding tolower_def n_def [symmetric]
    apply (simp add: eqs del: of_char_eq_iff)
    apply (auto simp: n_def)
    apply arith
    done
qed

lemma Load_type_present:
  assumes "map_of (attributes e) ''type'' = Some s"
  shows "Load_type e t0 =
           (case map_of [(''ball'', BALL), (''continuous'', CONTINUOUS), (''fixed'', FIXED),
                         (''gearbox'', GEARBOX), (''prismatic'', PRISMATIC),
                         (''revolute'', REVOLUTE), (''revolute2'', REVOLUTE2),
                         (''screw'', SCREW), (''universal'', UNIVERSAL)] (map tolower s) of
              Some t \<Rightarrow> (t, [])
            | None \<Rightarrow>
                (INVALID,
                 [Error ATTRIBUTE_INVALID
                    (''Joint type of '' @ map tolower s @
                     '' is invalid. Refer to the SDF documentation for a list of valid joint types'')]))"
  using assms by (simp add: Load_type_def Get_def Let_def)

text \<open>
  The pose frame and the child link name after \<open>Load\<close>; \<open>Load\<close> without a graph;
  \<open>Load\<close> with a graph when it returns; and exactly when it does not return.
\<close>

lemma Load_poseFrame_eq:
  assumes kind: "GetName e = ''joint''"
    and ret: "Load M A d e fg st = Inr (errs, d', st')"
  shows "poseFrame d' =
           (if snd (snd (loadPose e (pose d) (poseFrame d))) = [] then childLinkName d'
            else snd (snd (loadPose e (pose d) (poseFrame d))))"
    and "childLinkName d' =
           (case map_of (attributes e) ''child'' of Some c \<Rightarrow> c | None \<Rightarrow> childLinkName d)"
proof -
  from kind ret obtain n d5 ferrs t terrs gerrs where
    f: "Load_fields A (d\<lparr>sdf := Some e\<rparr>) e = (n, d5, ferrs)" and
    g: "Load_frameGraph M n (d5\<lparr>type := t\<rparr>) fg st = Inr (gerrs, d', st')"
    by (rule Load_joint_result)
  have same: "poseFrame d' = poseFrame d5 \<and> childLinkName d' = childLinkName d5"
  proof -
    from Load_frameGraph_fields [OF g]
    have "poseFrame d' = poseFrame (d5\<lparr>type := t, frameVertexId := frameVertexId d', frameGraph := frameGraph d'\<rparr>)"
      and "childLinkName d' = childLinkName (d5\<lparr>type := t, frameVertexId := frameVertexId d', frameGraph := frameGraph d'\<rparr>)"
      by simp_all
    then show ?thesis by simp
  qed
  show "poseFrame d' =
           (if snd (snd (loadPose e (pose d) (poseFrame d))) = [] then childLinkName d'
            else snd (snd (loadPose e (pose d) (poseFrame d))))"
    using same Load_fields_result(9) [OF f] by simp
  show "childLinkName d' =
           (case map_of (attributes e) ''child'' of Some c \<Rightarrow> c | None \<Rightarrow> childLinkName d)"
    using same Load_fields_result(7) [OF f] by (simp add: Get_def split: option.splits)
qed

lemma Load_None_joint:
  assumes kind: "GetName e = ''joint''"
  shows "\<exists>errs d'. Load M A d e None st =
           Inr (errs @ [Error FUNCTION_ARGUMENT_MISSING
                          ''A frame graph is required to compute pose information.''],
                d', st) \<and>
           frameGraph d' = frameGraph d \<and> frameVertexId d' = frameVertexId d"
proof -
  obtain n d5 ferrs where f: "Load_fields A (d\<lparr>sdf := Some e\<rparr>) e = (n, d5, ferrs)"
    by (cases "Load_fields A (d\<lparr>sdf := Some e\<rparr>) e") auto
  obtain t terrs where t: "Load_type e (type d5) = (t, terrs)"
    by (cases "Load_type e (type d5)") auto
  have "Load M A d e None st =
          Inr ((ferrs @ terrs) @ [Error FUNCTION_ARGUMENT_MISSING
                          ''A frame graph is required to compute pose information.''],
               d5\<lparr>type := t\<rparr>, st)"
    using Load_joint [OF kind f t, of M None st] by (simp add: Load_frameGraph_None)
  moreover have "frameGraph (d5\<lparr>type := t\<rparr>) = frameGraph d"
    and "frameVertexId (d5\<lparr>type := t\<rparr>) = frameVertexId d"
    using Load_fields_result(2,3) [OF f] by simp_all
  ultimately show ?thesis by blast
qed

lemma Load_Some_result:
  assumes kind: "GetName e = ''joint''"
    and ret: "Load M A d e (Some a) st = Inr (errs, d', st')"
  shows "\<exists>pv rest.
           frameGraph d' = a \<and>
           frameVertexId d' = NextVertexId (st a) \<and>
           vertices (st' a) =
             vertices (st a) @
               [\<lparr>Id = frameVertexId d', VName = fst (loadName e), Data = M (pose d')\<rparr>] \<and>
           Vertices (poseFrame d') (st' a) = pv # rest \<and>
           edges (st' a) =
             edges (st a) @
               [\<lparr>From = fst pv, To = frameVertexId d', Direction = - 1\<rparr>,
                \<lparr>From = frameVertexId d', To = fst pv, Direction = 1\<rparr>] \<and>
           (\<forall>b. b \<noteq> a \<longrightarrow> st' b = st b)"
proof -
  from kind ret obtain n d5 ferrs t terrs gerrs where
    f: "Load_fields A (d\<lparr>sdf := Some e\<rparr>) e = (n, d5, ferrs)" and
    g: "Load_frameGraph M n (d5\<lparr>type := t\<rparr>) (Some a) st = Inr (gerrs, d', st')"
    by (rule Load_joint_result)
  let ?d6 = "d5\<lparr>type := t\<rparr>"
  have n: "n = fst (loadName e)" using Load_fields_result(1) [OF f] .
  show ?thesis
  proof (cases "Vertices (poseFrame ?d6) (snd (AddVertex n (M (pose ?d6)) (st a)))")
    case Nil
    from Load_frameGraph_Some_empty [where d = ?d6 and n = n and M = M and st = st and a = a] Nil g
    show ?thesis by simp
  next
    case (Cons pv rest)
    from Load_frameGraph_Some_Cons [where d = ?d6 and n = n and M = M and st = st and a = a] Cons g
    have d': "d' = ?d6\<lparr>frameVertexId := NextVertexId (st a), frameGraph := a\<rparr>"
      and st': "st' = st(a := (st a)
                   \<lparr>vertices := vertices (st a) @
                      [\<lparr>Id = NextVertexId (st a), VName = n, Data = M (pose ?d6)\<rparr>],
                    edges := edges (st a) @
                      [\<lparr>From = fst pv, To = NextVertexId (st a), Direction = - 1\<rparr>,
                       \<lparr>From = NextVertexId (st a), To = fst pv, Direction = 1\<rparr>]\<rparr>)"
      by simp_all
    have "Vertices (poseFrame d') (st' a) = pv # rest"
      using Cons by (simp add: d' st' AddVertex_eq)
    then show ?thesis
      by (intro exI [of _ pv] exI [of _ rest]) (simp add: d' st' n)
  qed
qed

lemma Load_fault_iff:
  assumes kind: "GetName e = ''joint''"
  shows "Load M A d e (Some a) st = Inl EmptyLookupDeref \<longleftrightarrow>
           (let f = snd (snd (loadPose e (pose d) (poseFrame d)));
                c = (case map_of (attributes e) ''child'' of Some c \<Rightarrow> c | None \<Rightarrow> childLinkName d);
                pf = (if f = [] then c else f)
            in Vertices pf (st a) = [] \<and> fst (loadName e) \<noteq> pf)"
proof -
  obtain n d5 ferrs where f: "Load_fields A (d\<lparr>sdf := Some e\<rparr>) e = (n, d5, ferrs)"
    by (cases "Load_fields A (d\<lparr>sdf := Some e\<rparr>) e") auto
  obtain t terrs where t: "Load_type e (type d5) = (t, terrs)"
    by (cases "Load_type e (type d5)") auto
  let ?d6 = "d5\<lparr>type := t\<rparr>"
  let ?f = "snd (snd (loadPose e (pose d) (poseFrame d)))"
  let ?c = "case map_of (attributes e) ''child'' of Some c \<Rightarrow> c | None \<Rightarrow> childLinkName d"
  let ?pf = "if ?f = [] then ?c else ?f"
  have c: "childLinkName d5 = ?c"
    using Load_fields_result(7) [OF f] by (simp add: Get_def split: option.splits)
  have pf: "poseFrame ?d6 = ?pf"
    using Load_fields_result(9) [OF f] c by simp
  have n: "n = fst (loadName e)" using Load_fields_result(1) [OF f] .
  let ?look = "Vertices (poseFrame ?d6) (snd (AddVertex n (M (pose ?d6)) (st a)))"
  have L: "Load M A d e (Some a) st = Inl EmptyLookupDeref \<longleftrightarrow> ?look = []"
  proof (cases ?look)
    case Nil
    from Load_frameGraph_Some_empty [where d = ?d6 and n = n and M = M and st = st and a = a] Nil
    show ?thesis using Load_joint [OF kind f t, of M "Some a" st] by simp
  next
    case (Cons pv rest)
    from Load_frameGraph_Some_Cons [where d = ?d6 and n = n and M = M and st = st and a = a] Cons
    show ?thesis using Load_joint [OF kind f t, of M "Some a" st] by simp
  qed
  have "?look = [] \<longleftrightarrow> Vertices ?pf (st a) = [] \<and> n \<noteq> ?pf"
    unfolding pf Vertices_AddVertex by auto
  with L n show ?thesis by (simp add: Let_def)
qed

text \<open>
  The only fault of \<open>Load\<close> is the dereference of an empty lookup, the diagnostics of
  the frame-graph step, and exactly when \<open>Load\<close> returns: always without a graph, and
  with a graph when the lookup of the pose-frame name is not empty. The type text plays
  no part in it.
\<close>

lemma Load_fault_only:
  assumes "Load M A d e fg st = Inl fault"
  shows "fault = EmptyLookupDeref"
  using assms
  by (auto simp: Load_def Load_frameGraph_def Let_def
      split: prod.splits sum.splits option.splits list.splits if_splits)

lemma Load_frameGraph_errs:
  assumes "Load_frameGraph M n d fg st = Inr (gerrs, d', st')"
  shows "gerrs = (case fg of
                    None \<Rightarrow> [Error FUNCTION_ARGUMENT_MISSING
                                ''A frame graph is required to compute pose information.'']
                  | Some a \<Rightarrow> [])"
    and "fg = None \<Longrightarrow> d' = d \<and> st' = st"
  using assms
  by (auto simp: Load_frameGraph_def Let_def split: prod.splits option.splits list.splits)

lemma Load_returns_iff:
  assumes kind: "GetName e = ''joint''"
  shows "(\<exists>r. Load M A d e fg st = Inr r) \<longleftrightarrow>
           (\<forall>a. fg = Some a \<longrightarrow>
              (let f = snd (snd (loadPose e (pose d) (poseFrame d)));
                   c = (case map_of (attributes e) ''child'' of Some c \<Rightarrow> c | None \<Rightarrow> childLinkName d);
                   pf = (if f = [] then c else f)
               in Vertices pf (st a) \<noteq> [] \<or> fst (loadName e) = pf))"
proof (cases fg)
  case None
  with Load_None_joint [OF kind, of M A d st] show ?thesis by auto
next
  case (Some a)
  have "(\<exists>r. Load M A d e (Some a) st = Inr r) \<longleftrightarrow>
          Load M A d e (Some a) st \<noteq> Inl EmptyLookupDeref"
  proof (cases "Load M A d e (Some a) st")
    case (Inl fault)
    with Load_fault_only [OF Inl] show ?thesis by simp
  next
    case (Inr r)
    then show ?thesis by (cases r) auto
  qed
  with Load_fault_iff [OF kind, of M A d a st] Some show ?thesis
    by (simp add: Let_def)
qed

section \<open>The joint's own vertex\<close>

text \<open>
  The constructor gives the joint a graph of its own with one unnamed vertex, and the
  joint's vertex id stays resolvable in the joint's graph through every \<open>Load\<close> that
  returns. On that first graph the pose resolver knows the empty name only.
\<close>

lemma Joint_own_vertex:
  assumes "Joint Zero Identity a st0 = (d, st)"
  shows "frameGraph d = a" and "frameVertexId d = 0"
    and "st a = \<lparr>vertices = [\<lparr>Id = 0, VName = [], Data = Identity\<rparr>], edges = []\<rparr>"
    and "poseFrame d = []" and "childLinkName d = []"
  using assms by (auto simp: Joint_def AddVertex_eq NextVertexId_def)

lemma Joint_has_own_vertex:
  assumes "Joint Zero Identity a st0 = (d, st)"
  shows "VertexFromId (frameVertexId d) (st (frameGraph d)) = Some \<lparr>Id = 0, VName = [], Data = Identity\<rparr>"
  using Joint_own_vertex(1,2,3) [OF assms] by (simp add: VertexFromId_def)

lemma Load_own_vertex:
  assumes "VertexFromId (frameVertexId d) (st (frameGraph d)) \<noteq> None"
    and "Load M A d e fg st = Inr (errs, d', st')"
  shows "VertexFromId (frameVertexId d') (st' (frameGraph d')) \<noteq> None"
proof (cases "GetName e = ''joint''")
  case False
  then show ?thesis using assms by (auto simp: Load_mismatch)
next
  case kind: True
  show ?thesis
  proof (cases fg)
    case None
    from Load_None_joint [OF kind, of M A d st] assms None show ?thesis by auto
  next
    case (Some a)
    with assms(2) have "Load M A d e (Some a) st = Inr (errs, d', st')" by simp
    from Load_Some_result [OF kind this] obtain pv rest where
      r: "frameGraph d' = a"
         "vertices (st' a) =
            vertices (st a) @
              [\<lparr>Id = frameVertexId d', VName = fst (loadName e), Data = M (pose d')\<rparr>]"
      by blast
    show ?thesis
      using VertexFromId_member [of "\<lparr>Id = frameVertexId d', VName = fst (loadName e), Data = M (pose d')\<rparr>" "st' a"] r
      by simp
  qed
qed

lemma PoseInFrame_own_graph:
  assumes "frameVertexId d = 0"
    and "st (frameGraph d) = \<lparr>vertices = [\<lparr>Id = 0, VName = [], Data = m\<rparr>], edges = []\<rparr>"
  shows "PoseInFrame search P f d st =
           (if f = [] \<and> PoseFrame d = [] then Inr P else Inl NotFound)"
  using assms
  by (simp add: PoseInFrame_def Name_def poseInFrame_def VertexFromId_def Vertices_def PoseFrame_def)

section \<open>The concrete inputs, evaluated\<close>

lemma ex_joint_eq:
  "ex_joint = \<lparr>parentLinkName = [], childLinkName = [], type = INVALID, pose = 0,
           poseFrame = [], axis0 = None, axis1 = None, frameGraph = 0,
           frameVertexId = 0, sdf = None\<rparr>"
  by (simp add: ex_joint_def Joint_def AddVertex_eq NextVertexId_def)

lemma ex_store0_eq:
  "ex_store0 = ex_store(0 := \<lparr>vertices = [\<lparr>Id = 0, VName = [], Data = 0\<rparr>], edges = []\<rparr>)"
  by (simp add: ex_store0_def Joint_def AddVertex_eq NextVertexId_def)

lemma ex_Load_element:
  "Load ex_Matrix4d ex_JointAxis_Load ex_joint ex_element (Some 1) ex_store0 =
     Inr ([], ex_loaded, ex_store0(1 := ex_graph_loaded))"
  by (simp add: Load_defs ex_joint_eq ex_store0_eq ex_store_def ex_graph_def ex_element_def
      ex_loaded_def ex_graph_loaded_def ex_Matrix4d_def ex_JointAxis_Load_def numeral_2_eq_2)

lemma ex_Load_no_pose:
  "Load ex_Matrix4d ex_JointAxis_Load ex_joint ex_element_no_pose None ex_store0 =
     Inr ([Error FUNCTION_ARGUMENT_MISSING
             ''A frame graph is required to compute pose information.''],
          ex_loaded_no_pose, ex_store0)"
  by (simp add: Load_defs ex_joint_eq ex_element_no_pose_def ex_loaded_no_pose_def)

lemma ex_Load_no_child:
  "Load ex_Matrix4d ex_JointAxis_Load ex_joint ex_element_no_child None ex_store0 =
     Inr ([Error ELEMENT_MISSING ''The child element is missing.'',
           Error FUNCTION_ARGUMENT_MISSING
             ''A frame graph is required to compute pose information.''],
          ex_loaded_no_child, ex_store0)"
  by (simp add: Load_defs ex_joint_eq ex_element_no_child_def ex_loaded_no_child_def)

lemma ex_Load_bad_type:
  "Load ex_Matrix4d ex_JointAxis_Load ex_joint ex_element_bad_type None ex_store0 =
     Inr ([Error ATTRIBUTE_INVALID
             (''Joint type of hinge is invalid. Refer to the SDF documentation for a list of '' @
              ''valid joint types''),
           Error FUNCTION_ARGUMENT_MISSING
             ''A frame graph is required to compute pose information.''],
          ex_loaded_bad_type, ex_store0)"
  by (simp add: Load_defs ex_joint_eq ex_element_bad_type_def ex_loaded_bad_type_def)

lemma ex_Load_bad_type_graph:
  "Load ex_Matrix4d ex_JointAxis_Load ex_joint ex_element_bad_type (Some 1) ex_store0 =
     Inr ([Error ATTRIBUTE_INVALID
             (''Joint type of hinge is invalid. Refer to the SDF documentation for a list of '' @
              ''valid joint types'')],
          ex_loaded_bad_type_graph, ex_store0(1 := ex_graph_bad_type))"
  by (simp add: Load_defs ex_joint_eq ex_store0_eq ex_store_def ex_graph_def
      ex_element_bad_type_def ex_loaded_bad_type_graph_def ex_graph_bad_type_def
      ex_Matrix4d_def ex_JointAxis_Load_def numeral_2_eq_2)

section \<open>Claims\<close>

text \<open>
  C1, as stated, fails. The element \<open>ex_element\<close> has the parent \<open>parent_link\<close> and a
  pose expressed in the frame \<open>other\<close>. Loading it with the graph at address 1 returns
  without diagnostics and inserts vertex 2; the only vertex registered under the parent
  name is vertex 0, and the two edges inserted join vertices 1 and 2: no edge touches
  the vertex of the parent name.
\<close>

theorem Load_wires_edge_pair_counterexample:
  "Load ex_Matrix4d ex_JointAxis_Load ex_joint ex_element (Some 1) ex_store0 =
     Inr ([], ex_loaded, ex_store0(1 := ex_graph_loaded)) \<and>
   ParentLinkName ex_loaded = ''parent_link'' \<and>
   map fst (Vertices ''parent_link'' ex_graph_loaded) = [0] \<and>
   frameVertexId ex_loaded = 2 \<and>
   edges ex_graph_loaded =
     [\<lparr>From = 1, To = 2, Direction = - 1\<rparr>, \<lparr>From = 2, To = 1, Direction = 1\<rparr>]"
proof -
  have "ParentLinkName ex_loaded = ''parent_link''"
    and "map fst (Vertices ''parent_link'' ex_graph_loaded) = [0]"
    and "frameVertexId ex_loaded = 2"
    and "edges ex_graph_loaded =
           [\<lparr>From = 1, To = 2, Direction = - 1\<rparr>, \<lparr>From = 2, To = 1, Direction = 1\<rparr>]"
    by (simp_all add: ParentLinkName_def ex_loaded_def ex_graph_loaded_def Vertices_def)
  with ex_Load_element show ?thesis by simp
qed

text \<open>
  C1, amended. For every joint element loaded with a graph supplied, when \<open>Load\<close>
  returns: the joint refers to that graph; exactly one vertex has been appended to it,
  with an id that was not in the graph, the name read by \<open>loadName\<close> and the transform
  of the joint's pose as payload; the lookup of the joint's pose-frame name in the
  resulting graph is not empty, and with \<open>pv\<close> its first element exactly two edges have
  been appended, from \<open>pv\<close> to the new vertex with direction -1 and from the new vertex
  to \<open>pv\<close> with direction 1; every other graph of the store is unchanged.
\<close>

theorem Load_wires_edge_pair:
  assumes "GetName e = ''joint''"
    and "Load M A d e (Some a) st = Inr (errs, d', st')"
  shows "\<exists>pv rest.
           frameGraph d' = a \<and>
           VertexFromId (frameVertexId d') (st a) = None \<and>
           vertices (st' a) =
             vertices (st a) @
               [\<lparr>Id = frameVertexId d', VName = fst (loadName e), Data = M (Pose d')\<rparr>] \<and>
           Vertices (PoseFrame d') (st' a) = pv # rest \<and>
           edges (st' a) =
             edges (st a) @
               [\<lparr>From = fst pv, To = frameVertexId d', Direction = - 1\<rparr>,
                \<lparr>From = frameVertexId d', To = fst pv, Direction = 1\<rparr>] \<and>
           (\<forall>b. b \<noteq> a \<longrightarrow> st' b = st b)"
proof -
  from Load_Some_result [OF assms] obtain pv rest where
    r: "frameGraph d' = a"
       "frameVertexId d' = NextVertexId (st a)"
       "vertices (st' a) =
          vertices (st a) @
            [\<lparr>Id = frameVertexId d', VName = fst (loadName e), Data = M (pose d')\<rparr>]"
       "Vertices (poseFrame d') (st' a) = pv # rest"
       "edges (st' a) =
          edges (st a) @
            [\<lparr>From = fst pv, To = frameVertexId d', Direction = - 1\<rparr>,
             \<lparr>From = frameVertexId d', To = fst pv, Direction = 1\<rparr>]"
       "\<forall>b. b \<noteq> a \<longrightarrow> st' b = st b"
    by blast
  have fresh: "VertexFromId (frameVertexId d') (st a) = None"
    using r(2) by (simp add: VertexFromId_NextVertexId)
  show ?thesis
    using r(1,3,4,5,6) fresh unfolding Pose_def PoseFrame_def by blast
qed

text \<open>
  The amended C1 at \<open>ex_element\<close> and the graph at address 1.
\<close>

theorem Load_wires_edge_pair_witness:
  "GetName ex_element = ''joint'' \<and>
   Load ex_Matrix4d ex_JointAxis_Load ex_joint ex_element (Some 1) ex_store0 =
     Inr ([], ex_loaded, ex_store0(1 := ex_graph_loaded)) \<and>
   (\<exists>pv rest.
      frameGraph ex_loaded = 1 \<and>
      VertexFromId (frameVertexId ex_loaded) (ex_store0 1) = None \<and>
      vertices ((ex_store0(1 := ex_graph_loaded)) 1) =
        vertices (ex_store0 1) @
          [\<lparr>Id = frameVertexId ex_loaded, VName = fst (loadName ex_element),
            Data = ex_Matrix4d (Pose ex_loaded)\<rparr>] \<and>
      Vertices (PoseFrame ex_loaded) ((ex_store0(1 := ex_graph_loaded)) 1) = pv # rest \<and>
      edges ((ex_store0(1 := ex_graph_loaded)) 1) =
        edges (ex_store0 1) @
          [\<lparr>From = fst pv, To = frameVertexId ex_loaded, Direction = - 1\<rparr>,
           \<lparr>From = frameVertexId ex_loaded, To = fst pv, Direction = 1\<rparr>] \<and>
      (\<forall>b. b \<noteq> 1 \<longrightarrow> (ex_store0(1 := ex_graph_loaded)) b = ex_store0 b))"
proof -
  have k: "GetName ex_element = ''joint''" by (simp add: ex_element_def)
  from Load_wires_edge_pair [OF k ex_Load_element] k ex_Load_element
  show ?thesis by blast
qed

text \<open>
  C2. The code does not do what the claim says: the lookup result is dereferenced at
  \<open>begin()\<close> without a check. The element \<open>ex_element_no_pose\<close> has the child
  \<open>child_link\<close> and no pose, so its pose frame is \<open>child_link\<close>; the graph at address 1
  has no vertex of that name and the joint's own name differs, the lookup is empty, and
  \<open>Load\<close> ends in the dereference of an empty lookup result.
\<close>

theorem Load_empty_lookup_dereferenced:
  "Load ex_Matrix4d ex_JointAxis_Load ex_joint ex_element_no_pose (Some 1) ex_store0 =
     Inl EmptyLookupDeref"
  by (simp add: Load_defs ex_joint_eq ex_store0_eq ex_store_def ex_graph_def ex_element_no_pose_def
      ex_Matrix4d_def ex_JointAxis_Load_def)

text \<open>
  C3, as stated, fails: loading a joint element that has neither a child nor a pose into
  a new joint, without a graph, returns normally and the pose-frame name is empty (the
  default applied is the child link name, itself empty).
\<close>

theorem Load_poseFrame_empty_counterexample:
  "Load ex_Matrix4d ex_JointAxis_Load ex_joint ex_element_no_child None ex_store0 =
     Inr ([Error ELEMENT_MISSING ''The child element is missing.'',
           Error FUNCTION_ARGUMENT_MISSING
             ''A frame graph is required to compute pose information.''],
          ex_loaded_no_child, ex_store0) \<and>
   PoseFrame ex_loaded_no_child = []"
proof -
  have "PoseFrame ex_loaded_no_child = []"
    by (simp add: PoseFrame_def ex_loaded_no_child_def ex_joint_eq)
  with ex_Load_no_child show ?thesis by simp
qed

text \<open>
  C3, amended. For every joint element for which \<open>Load\<close> returns, the pose-frame name
  after \<open>Load\<close> is not empty provided the frame name left by pose extraction is not
  empty or the child link name after \<open>Load\<close> is not empty.
\<close>

theorem Load_poseFrame_nonempty:
  assumes "GetName e = ''joint''"
    and "Load M A d e fg st = Inr (errs, d', st')"
    and "snd (snd (loadPose e (pose d) (poseFrame d))) \<noteq> [] \<or> ChildLinkName d' \<noteq> []"
  shows "PoseFrame d' \<noteq> []"
  using Load_poseFrame_eq(1) [OF assms(1,2)] assms(3)
  by (auto simp: PoseFrame_def ChildLinkName_def split: if_splits)

text \<open>
  The amended C3 at \<open>ex_element_no_pose\<close>, loaded without a graph.
\<close>

theorem Load_poseFrame_nonempty_witness:
  "GetName ex_element_no_pose = ''joint'' \<and>
   Load ex_Matrix4d ex_JointAxis_Load ex_joint ex_element_no_pose None ex_store0 =
     Inr ([Error FUNCTION_ARGUMENT_MISSING
             ''A frame graph is required to compute pose information.''],
          ex_loaded_no_pose, ex_store0) \<and>
   ChildLinkName ex_loaded_no_pose = ''child_link'' \<and>
   PoseFrame ex_loaded_no_pose \<noteq> []"
proof -
  have k: "GetName ex_element_no_pose = ''joint''" by (simp add: ex_element_no_pose_def)
  have c: "ChildLinkName ex_loaded_no_pose = ''child_link''"
    by (simp add: ChildLinkName_def ex_loaded_no_pose_def)
  then have "snd (snd (loadPose ex_element_no_pose (pose ex_joint) (poseFrame ex_joint))) \<noteq> [] \<or>
           ChildLinkName ex_loaded_no_pose \<noteq> []"
    by simp
  from Load_poseFrame_nonempty [OF k ex_Load_no_pose this] k c ex_Load_no_pose
  show ?thesis by simp
qed

text \<open>
  C4. For every element whose kind tag is not \<open>joint\<close>, whatever graph argument is
  given, \<open>Load\<close> returns normally with a diagnostics list whose codes are exactly
  \<open>[ELEMENT_INCORRECT_TYPE]\<close>, the store of graphs is the one it was called with, and
  the joint's data is unchanged except that the element pointer is recorded: nothing of
  the element has been parsed.
\<close>

theorem Load_mismatched_kind:
  assumes "GetName e \<noteq> ''joint''"
  shows "\<exists>errs d' st'. Load M A d e fg st = Inr (errs, d', st') \<and>
           map Code errs = [ELEMENT_INCORRECT_TYPE] \<and> st' = st \<and> d' = d\<lparr>sdf := Some e\<rparr>"
  using assms by (simp add: Load_mismatch)

text \<open>
  C4 at \<open>ex_element_link\<close>, with a graph supplied.
\<close>

theorem Load_mismatched_kind_witness:
  "GetName ex_element_link \<noteq> ''joint'' \<and>
   (\<exists>errs d' st'.
      Load ex_Matrix4d ex_JointAxis_Load ex_joint ex_element_link (Some 1) ex_store0 =
        Inr (errs, d', st') \<and>
      map Code errs = [ELEMENT_INCORRECT_TYPE] \<and> st' = ex_store0 \<and>
      d' = ex_joint\<lparr>sdf := Some ex_element_link\<rparr>)"
proof -
  have h: "GetName ex_element_link \<noteq> ''joint''" by (simp add: ex_element_link_def)
  show ?thesis
    using h Load_mismatched_kind [OF h, of ex_Matrix4d ex_JointAxis_Load ex_joint "Some 1" ex_store0]
    by simp
qed

text \<open>
  C5, as stated, fails in one point: the diagnostic does not carry the offending text.
  The element \<open>ex_element_bad_type\<close> has the type \<open>Hinge\<close>; loading it returns the
  \<open>ATTRIBUTE_INVALID\<close> diagnostic with the lower-cased text \<open>hinge\<close> in its message, and
  the text \<open>Hinge\<close> occurs in no message of the returned diagnostics.
\<close>

theorem Load_type_text_counterexample:
  "map_of (attributes ex_element_bad_type) ''type'' = Some ''Hinge'' \<and>
   Load ex_Matrix4d ex_JointAxis_Load ex_joint ex_element_bad_type None ex_store0 =
     Inr ([Error ATTRIBUTE_INVALID
             (''Joint type of hinge is invalid. Refer to the SDF documentation for a list of '' @
              ''valid joint types''),
           Error FUNCTION_ARGUMENT_MISSING
             ''A frame graph is required to compute pose information.''],
          ex_loaded_bad_type, ex_store0) \<and>
   \<not> sublist ''Hinge''
       (''Joint type of hinge is invalid. Refer to the SDF documentation for a list of '' @
        ''valid joint types'') \<and>
   \<not> sublist ''Hinge'' ''A frame graph is required to compute pose information.''"
proof -
  have "map_of (attributes ex_element_bad_type) ''type'' = Some ''Hinge''"
    by (simp add: ex_element_bad_type_def)
  moreover have "\<not> sublist ''Hinge''
       (''Joint type of hinge is invalid. Refer to the SDF documentation for a list of '' @
        ''valid joint types'')"
    by (simp add: sublist_Cons_right prefix_Cons)
  moreover have "\<not> sublist ''Hinge'' ''A frame graph is required to compute pose information.''"
    by (simp add: sublist_Cons_right prefix_Cons)
  ultimately show ?thesis using ex_Load_bad_type by simp
qed

text \<open>
  C5, amended. For every joint element with a type string \<open>s\<close>:
  the match is case-insensitive in that it is made on \<open>s\<close> with the letters A to Z
  replaced by a to z (by character code, 65 to 90 raised by 32) and every other byte
  kept; whether \<open>Load\<close> returns does not depend on \<open>s\<close> (it returns always without a
  graph, and with a graph exactly when the lookup of the pose-frame name is not empty or
  the joint's own name is the pose-frame name), so an unknown type is not fatal; and
  whenever \<open>Load\<close> returns, the classification is the entry of the fixed enumeration
  under the lower-cased \<open>s\<close>, or \<open>INVALID\<close> when there is none. In that last case the
  diagnostics end with the \<open>ATTRIBUTE_INVALID\<close> entry, whose message carries the
  lower-cased \<open>s\<close>, followed only by what the frame-graph step adds, and that step has
  run in full: without a graph its diagnostic follows and the store and the joint's
  graph reference are unchanged; with a graph the new vertex and the edge pair have been
  inserted.
\<close>

theorem Load_classifies_type:
  assumes kind: "GetName e = ''joint''"
    and ty: "map_of (attributes e) ''type'' = Some s"
  shows "(\<forall>c. (of_char (tolower c) :: nat) =
              (if 65 \<le> (of_char c :: nat) \<and> (of_char c :: nat) \<le> 90
               then of_char c + 32 else of_char c)) \<and>
         ((\<exists>r. Load M A d e fg st = Inr r) \<longleftrightarrow>
            (\<forall>a. fg = Some a \<longrightarrow>
               (let f = snd (snd (loadPose e (pose d) (poseFrame d)));
                    c = (case map_of (attributes e) ''child'' of
                           Some c \<Rightarrow> c | None \<Rightarrow> childLinkName d);
                    pf = (if f = [] then c else f)
                in Vertices pf (st a) \<noteq> [] \<or> fst (loadName e) = pf))) \<and>
         (\<forall>errs d' st'. Load M A d e fg st = Inr (errs, d', st') \<longrightarrow>
            Type d' =
              (case map_of [(''ball'', BALL), (''continuous'', CONTINUOUS), (''fixed'', FIXED),
                            (''gearbox'', GEARBOX), (''prismatic'', PRISMATIC),
                            (''revolute'', REVOLUTE), (''revolute2'', REVOLUTE2),
                            (''screw'', SCREW), (''universal'', UNIVERSAL)] (map tolower s) of
                 Some t \<Rightarrow> t
               | None \<Rightarrow> INVALID) \<and>
            (map tolower s \<notin> set [''ball'', ''continuous'', ''fixed'', ''gearbox'',
                                   ''prismatic'', ''revolute'', ''revolute2'', ''screw'',
                                   ''universal''] \<longrightarrow>
               Type d' = INVALID \<and>
               (\<exists>pre. errs =
                  pre @
                  Error ATTRIBUTE_INVALID
                    (''Joint type of '' @ map tolower s @
                     '' is invalid. Refer to the SDF documentation for a list of valid joint types'') #
                  (case fg of
                     None \<Rightarrow> [Error FUNCTION_ARGUMENT_MISSING
                                 ''A frame graph is required to compute pose information.'']
                   | Some a \<Rightarrow> [])) \<and>
               (fg = None \<longrightarrow>
                  st' = st \<and> frameGraph d' = frameGraph d \<and>
                  frameVertexId d' = frameVertexId d) \<and>
               (\<forall>a. fg = Some a \<longrightarrow>
                  (\<exists>pv rest.
                     frameGraph d' = a \<and>
                     VertexFromId (frameVertexId d') (st a) = None \<and>
                     vertices (st' a) =
                       vertices (st a) @
                         [\<lparr>Id = frameVertexId d', VName = fst (loadName e),
                           Data = M (Pose d')\<rparr>] \<and>
                     Vertices (PoseFrame d') (st' a) = pv # rest \<and>
                     edges (st' a) =
                       edges (st a) @
                         [\<lparr>From = fst pv, To = frameVertexId d', Direction = - 1\<rparr>,
                          \<lparr>From = frameVertexId d', To = fst pv, Direction = 1\<rparr>] \<and>
                     (\<forall>b. b \<noteq> a \<longrightarrow> st' b = st b)))))"
    (is "?ascii \<and> ?returns \<and> ?result")
proof -
  have ascii: ?ascii by (simp add: tolower_ascii)
  have returns: ?returns by (rule Load_returns_iff [OF kind])
  have result: ?result
  proof (intro allI impI)
    fix errs d' st'
    assume ret: "Load M A d e fg st = Inr (errs, d', st')"
    from kind ret obtain n d5 ferrs t terrs gerrs where
      f: "Load_fields A (d\<lparr>sdf := Some e\<rparr>) e = (n, d5, ferrs)" and
      t: "Load_type e (type d5) = (t, terrs)" and
      g: "Load_frameGraph M n (d5\<lparr>type := t\<rparr>) fg st = Inr (gerrs, d', st')" and
      errs: "errs = ferrs @ terrs @ gerrs"
      by (rule Load_joint_result)
    have ty': "type d' = t"
    proof -
      from Load_frameGraph_fields [OF g]
      have "type d' = type (d5\<lparr>type := t, frameVertexId := frameVertexId d',
                                frameGraph := frameGraph d'\<rparr>)"
        by simp
      then show ?thesis by simp
    qed
    note tp = Load_type_present [OF ty, of "type d5"]
    note ge = Load_frameGraph_errs [OF g]
    have A: "Type d' =
              (case map_of [(''ball'', BALL), (''continuous'', CONTINUOUS), (''fixed'', FIXED),
                            (''gearbox'', GEARBOX), (''prismatic'', PRISMATIC),
                            (''revolute'', REVOLUTE), (''revolute2'', REVOLUTE2),
                            (''screw'', SCREW), (''universal'', UNIVERSAL)] (map tolower s) of
                 Some t \<Rightarrow> t
               | None \<Rightarrow> INVALID)"
      using tp t ty' unfolding Type_def by (auto split: option.splits)
    have B: "Type d' = INVALID \<and>
             (\<exists>pre. errs =
                  pre @
                  Error ATTRIBUTE_INVALID
                    (''Joint type of '' @ map tolower s @
                     '' is invalid. Refer to the SDF documentation for a list of valid joint types'') #
                  (case fg of
                     None \<Rightarrow> [Error FUNCTION_ARGUMENT_MISSING
                                 ''A frame graph is required to compute pose information.'']
                   | Some a \<Rightarrow> []))"
      if inv: "map tolower s \<notin> set [''ball'', ''continuous'', ''fixed'', ''gearbox'',
                                   ''prismatic'', ''revolute'', ''revolute2'', ''screw'',
                                   ''universal'']"
    proof -
      from inv tp t have tt: "t = INVALID" and te: "terrs =
          [Error ATTRIBUTE_INVALID
             (''Joint type of '' @ map tolower s @
              '' is invalid. Refer to the SDF documentation for a list of valid joint types'')]"
        by auto
      have "errs = ferrs @
                  Error ATTRIBUTE_INVALID
                    (''Joint type of '' @ map tolower s @
                     '' is invalid. Refer to the SDF documentation for a list of valid joint types'') #
                  (case fg of
                     None \<Rightarrow> [Error FUNCTION_ARGUMENT_MISSING
                                 ''A frame graph is required to compute pose information.'']
                   | Some a \<Rightarrow> [])"
        using errs te ge(1) by simp
      then show ?thesis using tt ty' unfolding Type_def by blast
    qed
    have C: "st' = st \<and> frameGraph d' = frameGraph d \<and> frameVertexId d' = frameVertexId d"
      if "fg = None"
      using ge(2) [OF that] Load_fields_result(2,3) [OF f] by auto
    have D: "\<exists>pv rest.
                     frameGraph d' = a \<and>
                     VertexFromId (frameVertexId d') (st a) = None \<and>
                     vertices (st' a) =
                       vertices (st a) @
                         [\<lparr>Id = frameVertexId d', VName = fst (loadName e),
                           Data = M (Pose d')\<rparr>] \<and>
                     Vertices (PoseFrame d') (st' a) = pv # rest \<and>
                     edges (st' a) =
                       edges (st a) @
                         [\<lparr>From = fst pv, To = frameVertexId d', Direction = - 1\<rparr>,
                          \<lparr>From = frameVertexId d', To = fst pv, Direction = 1\<rparr>] \<and>
                     (\<forall>b. b \<noteq> a \<longrightarrow> st' b = st b)"
      if "fg = Some a" for a
    proof -
      from that ret have "Load M A d e (Some a) st = Inr (errs, d', st')" by simp
      from Load_Some_result [OF kind this] obtain pv rest where
        r: "frameGraph d' = a"
           "frameVertexId d' = NextVertexId (st a)"
           "vertices (st' a) =
              vertices (st a) @
                [\<lparr>Id = frameVertexId d', VName = fst (loadName e), Data = M (pose d')\<rparr>]"
           "Vertices (poseFrame d') (st' a) = pv # rest"
           "edges (st' a) =
              edges (st a) @
                [\<lparr>From = fst pv, To = frameVertexId d', Direction = - 1\<rparr>,
                 \<lparr>From = frameVertexId d', To = fst pv, Direction = 1\<rparr>]"
           "\<forall>b. b \<noteq> a \<longrightarrow> st' b = st b"
        by blast
      have fresh: "VertexFromId (frameVertexId d') (st a) = None"
        using r(2) by (simp add: VertexFromId_NextVertexId)
      show ?thesis
        using r(1,3,4,5,6) fresh unfolding Pose_def PoseFrame_def by blast
    qed
    show "Type d' =
              (case map_of [(''ball'', BALL), (''continuous'', CONTINUOUS), (''fixed'', FIXED),
                            (''gearbox'', GEARBOX), (''prismatic'', PRISMATIC),
                            (''revolute'', REVOLUTE), (''revolute2'', REVOLUTE2),
                            (''screw'', SCREW), (''universal'', UNIVERSAL)] (map tolower s) of
                 Some t \<Rightarrow> t
               | None \<Rightarrow> INVALID) \<and>
            (map tolower s \<notin> set [''ball'', ''continuous'', ''fixed'', ''gearbox'',
                                   ''prismatic'', ''revolute'', ''revolute2'', ''screw'',
                                   ''universal''] \<longrightarrow>
               Type d' = INVALID \<and>
               (\<exists>pre. errs =
                  pre @
                  Error ATTRIBUTE_INVALID
                    (''Joint type of '' @ map tolower s @
                     '' is invalid. Refer to the SDF documentation for a list of valid joint types'') #
                  (case fg of
                     None \<Rightarrow> [Error FUNCTION_ARGUMENT_MISSING
                                 ''A frame graph is required to compute pose information.'']
                   | Some a \<Rightarrow> [])) \<and>
               (fg = None \<longrightarrow>
                  st' = st \<and> frameGraph d' = frameGraph d \<and>
                  frameVertexId d' = frameVertexId d) \<and>
               (\<forall>a. fg = Some a \<longrightarrow>
                  (\<exists>pv rest.
                     frameGraph d' = a \<and>
                     VertexFromId (frameVertexId d') (st a) = None \<and>
                     vertices (st' a) =
                       vertices (st a) @
                         [\<lparr>Id = frameVertexId d', VName = fst (loadName e),
                           Data = M (Pose d')\<rparr>] \<and>
                     Vertices (PoseFrame d') (st' a) = pv # rest \<and>
                     edges (st' a) =
                       edges (st a) @
                         [\<lparr>From = fst pv, To = frameVertexId d', Direction = - 1\<rparr>,
                          \<lparr>From = frameVertexId d', To = fst pv, Direction = 1\<rparr>] \<and>
                     (\<forall>b. b \<noteq> a \<longrightarrow> st' b = st b))))"
      using A B C D by blast
  qed
  from ascii returns result show ?thesis by blast
qed

text \<open>
  The amended C5 at \<open>ex_element_bad_type\<close> (type \<open>Hinge\<close>) with the graph at address 1
  and without a graph, at \<open>ex_element\<close> (type \<open>Revolute\<close>), and at the letter F.
\<close>

theorem Load_classifies_type_witness:
  "GetName ex_element_bad_type = ''joint'' \<and>
   map_of (attributes ex_element_bad_type) ''type'' = Some ''Hinge'' \<and>
   map tolower ''Hinge'' = ''hinge'' \<and>
   Load ex_Matrix4d ex_JointAxis_Load ex_joint ex_element_bad_type (Some 1) ex_store0 =
     Inr ([Error ATTRIBUTE_INVALID
             (''Joint type of hinge is invalid. Refer to the SDF documentation for a list of '' @
              ''valid joint types'')],
          ex_loaded_bad_type_graph, ex_store0(1 := ex_graph_bad_type)) \<and>
   Type ex_loaded_bad_type_graph = INVALID \<and>
   (\<exists>pv rest.
      frameGraph ex_loaded_bad_type_graph = 1 \<and>
      VertexFromId (frameVertexId ex_loaded_bad_type_graph) (ex_store0 1) = None \<and>
      vertices ((ex_store0(1 := ex_graph_bad_type)) 1) =
        vertices (ex_store0 1) @
          [\<lparr>Id = frameVertexId ex_loaded_bad_type_graph,
            VName = fst (loadName ex_element_bad_type),
            Data = ex_Matrix4d (Pose ex_loaded_bad_type_graph)\<rparr>] \<and>
      Vertices (PoseFrame ex_loaded_bad_type_graph) ((ex_store0(1 := ex_graph_bad_type)) 1) =
        pv # rest \<and>
      edges ((ex_store0(1 := ex_graph_bad_type)) 1) =
        edges (ex_store0 1) @
          [\<lparr>From = fst pv, To = frameVertexId ex_loaded_bad_type_graph, Direction = - 1\<rparr>,
           \<lparr>From = frameVertexId ex_loaded_bad_type_graph, To = fst pv, Direction = 1\<rparr>] \<and>
      (\<forall>b. b \<noteq> 1 \<longrightarrow> (ex_store0(1 := ex_graph_bad_type)) b = ex_store0 b)) \<and>
   Load ex_Matrix4d ex_JointAxis_Load ex_joint ex_element_bad_type None ex_store0 =
     Inr ([Error ATTRIBUTE_INVALID
             (''Joint type of hinge is invalid. Refer to the SDF documentation for a list of '' @
              ''valid joint types''),
           Error FUNCTION_ARGUMENT_MISSING
             ''A frame graph is required to compute pose information.''],
          ex_loaded_bad_type, ex_store0) \<and>
   Type ex_loaded_bad_type = INVALID \<and>
   GetName ex_element = ''joint'' \<and>
   map_of (attributes ex_element) ''type'' = Some ''Revolute'' \<and>
   map tolower ''Revolute'' = ''revolute'' \<and>
   Load ex_Matrix4d ex_JointAxis_Load ex_joint ex_element (Some 1) ex_store0 =
     Inr ([], ex_loaded, ex_store0(1 := ex_graph_loaded)) \<and>
   Type ex_loaded = REVOLUTE \<and>
   (of_char (tolower CHR ''F'') :: nat) = 102"
proof -
  have k1: "GetName ex_element_bad_type = ''joint''" by (simp add: ex_element_bad_type_def)
  have t1: "map_of (attributes ex_element_bad_type) ''type'' = Some ''Hinge''"
    by (simp add: ex_element_bad_type_def)
  have l1: "map tolower ''Hinge'' = ''hinge''" by (simp add: tolower_def)
  have k2: "GetName ex_element = ''joint''" by (simp add: ex_element_def)
  have t2: "map_of (attributes ex_element) ''type'' = Some ''Revolute''"
    by (simp add: ex_element_def)
  have l2: "map tolower ''Revolute'' = ''revolute''" by (simp add: tolower_def)
  note g1 = Load_classifies_type [OF k1 t1, of ex_Matrix4d ex_JointAxis_Load ex_joint
      "Some 1" ex_store0]
  note n1 = Load_classifies_type [OF k1 t1, of ex_Matrix4d ex_JointAxis_Load ex_joint
      None ex_store0]
  note g2 = Load_classifies_type [OF k2 t2, of ex_Matrix4d ex_JointAxis_Load ex_joint
      "Some 1" ex_store0]
  have inv: "map tolower ''Hinge'' \<notin> set [''ball'', ''continuous'', ''fixed'', ''gearbox'',
               ''prismatic'', ''revolute'', ''revolute2'', ''screw'', ''universal'']"
    unfolding l1 by simp
  from g1 have
    "\<forall>errs d' st'.
       Load ex_Matrix4d ex_JointAxis_Load ex_joint ex_element_bad_type (Some 1) ex_store0 =
         Inr (errs, d', st') \<longrightarrow>
       (map tolower ''Hinge'' \<notin> set [''ball'', ''continuous'', ''fixed'', ''gearbox'',
               ''prismatic'', ''revolute'', ''revolute2'', ''screw'', ''universal''] \<longrightarrow>
        Type d' = INVALID \<and>
        (\<forall>a. Some (1::nat) = Some a \<longrightarrow>
           (\<exists>pv rest.
              frameGraph d' = a \<and>
              VertexFromId (frameVertexId d') (ex_store0 a) = None \<and>
              vertices (st' a) =
                vertices (ex_store0 a) @
                  [\<lparr>Id = frameVertexId d', VName = fst (loadName ex_element_bad_type),
                    Data = ex_Matrix4d (Pose d')\<rparr>] \<and>
              Vertices (PoseFrame d') (st' a) = pv # rest \<and>
              edges (st' a) =
                edges (ex_store0 a) @
                  [\<lparr>From = fst pv, To = frameVertexId d', Direction = - 1\<rparr>,
                   \<lparr>From = frameVertexId d', To = fst pv, Direction = 1\<rparr>] \<and>
              (\<forall>b. b \<noteq> a \<longrightarrow> st' b = ex_store0 b))))"
    by blast
  from this ex_Load_bad_type_graph inv have r1:
    "Type ex_loaded_bad_type_graph = INVALID \<and>
     (\<exists>pv rest.
        frameGraph ex_loaded_bad_type_graph = 1 \<and>
        VertexFromId (frameVertexId ex_loaded_bad_type_graph) (ex_store0 1) = None \<and>
        vertices ((ex_store0(1 := ex_graph_bad_type)) 1) =
          vertices (ex_store0 1) @
            [\<lparr>Id = frameVertexId ex_loaded_bad_type_graph,
              VName = fst (loadName ex_element_bad_type),
              Data = ex_Matrix4d (Pose ex_loaded_bad_type_graph)\<rparr>] \<and>
        Vertices (PoseFrame ex_loaded_bad_type_graph) ((ex_store0(1 := ex_graph_bad_type)) 1) =
          pv # rest \<and>
        edges ((ex_store0(1 := ex_graph_bad_type)) 1) =
          edges (ex_store0 1) @
            [\<lparr>From = fst pv, To = frameVertexId ex_loaded_bad_type_graph, Direction = - 1\<rparr>,
             \<lparr>From = frameVertexId ex_loaded_bad_type_graph, To = fst pv, Direction = 1\<rparr>] \<and>
        (\<forall>b. b \<noteq> 1 \<longrightarrow> (ex_store0(1 := ex_graph_bad_type)) b = ex_store0 b))"
    by blast
  from n1 have
    "\<forall>errs d' st'.
       Load ex_Matrix4d ex_JointAxis_Load ex_joint ex_element_bad_type None ex_store0 =
         Inr (errs, d', st') \<longrightarrow>
       (map tolower ''Hinge'' \<notin> set [''ball'', ''continuous'', ''fixed'', ''gearbox'',
               ''prismatic'', ''revolute'', ''revolute2'', ''screw'', ''universal''] \<longrightarrow>
        Type d' = INVALID)"
    by blast
  from this ex_Load_bad_type inv have r2: "Type ex_loaded_bad_type = INVALID" by blast
  from g2 have
    "\<forall>errs d' st'.
       Load ex_Matrix4d ex_JointAxis_Load ex_joint ex_element (Some 1) ex_store0 =
         Inr (errs, d', st') \<longrightarrow>
       Type d' =
         (case map_of [(''ball'', BALL), (''continuous'', CONTINUOUS), (''fixed'', FIXED),
                       (''gearbox'', GEARBOX), (''prismatic'', PRISMATIC),
                       (''revolute'', REVOLUTE), (''revolute2'', REVOLUTE2),
                       (''screw'', SCREW), (''universal'', UNIVERSAL)] (map tolower ''Revolute'') of
            Some t \<Rightarrow> t
          | None \<Rightarrow> INVALID)"
    by blast
  from this ex_Load_element have
    "Type ex_loaded =
         (case map_of [(''ball'', BALL), (''continuous'', CONTINUOUS), (''fixed'', FIXED),
                       (''gearbox'', GEARBOX), (''prismatic'', PRISMATIC),
                       (''revolute'', REVOLUTE), (''revolute2'', REVOLUTE2),
                       (''screw'', SCREW), (''universal'', UNIVERSAL)] (map tolower ''Revolute'') of
            Some t \<Rightarrow> t
          | None \<Rightarrow> INVALID)"
    by blast
  then have r3: "Type ex_loaded = REVOLUTE" unfolding l2 by simp
  from g1 have "(of_char (tolower CHR ''F'') :: nat) =
              (if 65 \<le> (of_char CHR ''F'' :: nat) \<and> (of_char CHR ''F'' :: nat) \<le> 90
               then of_char CHR ''F'' + 32 else of_char CHR ''F'')"
    by blast
  then have r4: "(of_char (tolower CHR ''F'') :: nat) = 102" by simp
  from k1 t1 l1 ex_Load_bad_type_graph r1 ex_Load_bad_type r2 k2 t2 l2 ex_Load_element r3 r4
  show ?thesis by blast
qed

text \<open>
  C6. For every joint element for which \<open>Load\<close> returns, let \<open>f\<close> be the frame name
  that pose extraction leaves (third component of \<open>loadPose\<close> on the joint's pose and
  pose frame). When \<open>f\<close> is empty the pose-frame name after \<open>Load\<close> is the child link
  name after \<open>Load\<close>; when \<open>f\<close> is not empty it is \<open>f\<close>.
\<close>

theorem Load_poseFrame_default:
  assumes "GetName e = ''joint''"
    and "Load M A d e fg st = Inr (errs, d', st')"
  shows "PoseFrame d' =
           (if snd (snd (loadPose e (pose d) (poseFrame d))) = [] then ChildLinkName d'
            else snd (snd (loadPose e (pose d) (poseFrame d))))"
  using Load_poseFrame_eq(1) [OF assms] by (simp add: PoseFrame_def ChildLinkName_def)

text \<open>
  C6 at \<open>ex_element_no_pose\<close> (empty frame) and at \<open>ex_element\<close> (frame \<open>other\<close>).
\<close>

theorem Load_poseFrame_default_witness:
  "GetName ex_element_no_pose = ''joint'' \<and>
   Load ex_Matrix4d ex_JointAxis_Load ex_joint ex_element_no_pose None ex_store0 =
     Inr ([Error FUNCTION_ARGUMENT_MISSING
             ''A frame graph is required to compute pose information.''],
          ex_loaded_no_pose, ex_store0) \<and>
   snd (snd (loadPose ex_element_no_pose (pose ex_joint) (poseFrame ex_joint))) = [] \<and>
   PoseFrame ex_loaded_no_pose = ''child_link'' \<and>
   ChildLinkName ex_loaded_no_pose = ''child_link'' \<and>
   GetName ex_element = ''joint'' \<and>
   Load ex_Matrix4d ex_JointAxis_Load ex_joint ex_element (Some 1) ex_store0 =
     Inr ([], ex_loaded, ex_store0(1 := ex_graph_loaded)) \<and>
   snd (snd (loadPose ex_element (pose ex_joint) (poseFrame ex_joint))) = ''other'' \<and>
   PoseFrame ex_loaded = ''other''"
proof -
  have k1: "GetName ex_element_no_pose = ''joint''" by (simp add: ex_element_no_pose_def)
  have k2: "GetName ex_element = ''joint''" by (simp add: ex_element_def)
  have p1: "snd (snd (loadPose ex_element_no_pose (pose ex_joint) (poseFrame ex_joint))) = []"
    by (simp add: loadPose_def ex_element_no_pose_def ex_joint_eq)
  have p2: "snd (snd (loadPose ex_element (pose ex_joint) (poseFrame ex_joint))) = ''other''"
    by (simp add: loadPose_def ex_element_def)
  have c1: "ChildLinkName ex_loaded_no_pose = ''child_link''"
    by (simp add: ChildLinkName_def ex_loaded_no_pose_def)
  from Load_poseFrame_default [OF k1 ex_Load_no_pose] p1 c1
  have r1: "PoseFrame ex_loaded_no_pose = ''child_link''" by simp
  from Load_poseFrame_default [OF k2 ex_Load_element] p2
  have r2: "PoseFrame ex_loaded = ''other''" by simp
  show ?thesis using k1 k2 p1 p2 c1 r1 r2 ex_Load_no_pose ex_Load_element by simp
qed

text \<open>
  C7, as stated, fails. Loading \<open>ex_element_no_child\<close> into a new joint without a graph
  returns normally with the \<open>FUNCTION_ARGUMENT_MISSING\<close> diagnostic last; the joint
  keeps the graph of its own that the constructor made, whose one vertex has the empty
  name, and its pose frame is empty. The pose query with the empty frame argument then
  resolves the empty name against itself and succeeds with the identity pose.
\<close>

theorem Load_without_graph_counterexample:
  "Load ex_Matrix4d ex_JointAxis_Load ex_joint ex_element_no_child None ex_store0 =
     Inr ([Error ELEMENT_MISSING ''The child element is missing.'',
           Error FUNCTION_ARGUMENT_MISSING
             ''A frame graph is required to compute pose information.''],
          ex_loaded_no_child, ex_store0) \<and>
   PoseInFrame ex_search 0 [] ex_loaded_no_child ex_store0 = Inr 0"
proof -
  have "PoseInFrame ex_search 0 [] ex_loaded_no_child ex_store0 = Inr 0"
    by (simp add: PoseInFrame_def Name_def poseInFrame_def VertexFromId_def Vertices_def
        PoseFrame_def ex_loaded_no_child_def ex_joint_eq ex_store0_eq)
  with ex_Load_no_child show ?thesis by simp
qed

text \<open>
  C7, amended. For every joint element loaded with no graph supplied, \<open>Load\<close> returns
  normally with the \<open>FUNCTION_ARGUMENT_MISSING\<close> diagnostic appended last, the store of
  graphs is unchanged, and the joint keeps the graph and the vertex id it had. When the
  joint and the store are those the constructor made, every later pose query has a
  determined outcome that is never the fault of an empty dereference: it fails with
  \<open>NotFound\<close>, except that the query with the empty frame argument on a joint whose pose
  frame is empty returns the identity pose.
\<close>

theorem Load_without_graph:
  assumes "GetName e = ''joint''"
  shows "\<exists>errs d'.
           Load M A d e None st =
             Inr (errs @ [Error FUNCTION_ARGUMENT_MISSING
                            ''A frame graph is required to compute pose information.''],
                  d', st) \<and>
           frameGraph d' = frameGraph d \<and> frameVertexId d' = frameVertexId d \<and>
           (Joint Zero Identity a st0 = (d, st) \<longrightarrow>
              PoseInFrame search P f d' st =
                (if f = [] \<and> PoseFrame d' = [] then Inr P else Inl NotFound))"
proof -
  from Load_None_joint [OF assms, of M A d st] obtain errs d' where
    r: "Load M A d e None st =
          Inr (errs @ [Error FUNCTION_ARGUMENT_MISSING
                         ''A frame graph is required to compute pose information.''],
               d', st)"
       "frameGraph d' = frameGraph d" "frameVertexId d' = frameVertexId d"
    by blast
  have "PoseInFrame search P f d' st =
          (if f = [] \<and> PoseFrame d' = [] then Inr P else Inl NotFound)"
    if j: "Joint Zero Identity a st0 = (d, st)"
  proof (rule PoseInFrame_own_graph)
    show "frameVertexId d' = 0" using Joint_own_vertex(2) [OF j] r(3) by simp
    show "st (frameGraph d') = \<lparr>vertices = [\<lparr>Id = 0, VName = [], Data = Identity\<rparr>], edges = []\<rparr>"
      using Joint_own_vertex(1,3) [OF j] r(2) by simp
  qed
  with r show ?thesis by blast
qed

text \<open>
  The amended C7 at \<open>ex_element_no_pose\<close> and the query for the frame \<open>parent_link\<close>.
\<close>

theorem Load_without_graph_witness:
  "GetName ex_element_no_pose = ''joint'' \<and>
   Joint 0 0 0 ex_store = (ex_joint, ex_store0) \<and>
   (\<exists>errs d'.
      Load ex_Matrix4d ex_JointAxis_Load ex_joint ex_element_no_pose None ex_store0 =
        Inr (errs @ [Error FUNCTION_ARGUMENT_MISSING
                       ''A frame graph is required to compute pose information.''],
             d', ex_store0) \<and>
      frameGraph d' = frameGraph ex_joint \<and> frameVertexId d' = frameVertexId ex_joint \<and>
      PoseInFrame ex_search 0 ''parent_link'' d' ex_store0 = Inl NotFound)"
proof -
  have k: "GetName ex_element_no_pose = ''joint''" by (simp add: ex_element_no_pose_def)
  have j: "Joint 0 0 0 ex_store = (ex_joint, ex_store0)"
    by (simp add: ex_joint_def ex_store0_def)
  from Load_without_graph [OF k, of ex_Matrix4d ex_JointAxis_Load ex_joint ex_store0
      0 0 0 ex_store ex_search 0 "''parent_link''"] j
  have "\<exists>errs d'.
      Load ex_Matrix4d ex_JointAxis_Load ex_joint ex_element_no_pose None ex_store0 =
        Inr (errs @ [Error FUNCTION_ARGUMENT_MISSING
                       ''A frame graph is required to compute pose information.''],
             d', ex_store0) \<and>
      frameGraph d' = frameGraph ex_joint \<and> frameVertexId d' = frameVertexId ex_joint \<and>
      PoseInFrame ex_search 0 ''parent_link'' d' ex_store0 = Inl NotFound"
    by simp
  with k j show ?thesis by blast
qed

text \<open>
  C8. For every pose \<open>p\<close>, when the joint's vertex id is resolvable in the joint's
  graph (as it is from the constructor on, see \<open>Joint_has_own_vertex\<close> and
  \<open>Load_own_vertex\<close>), \<open>SetPose\<close> returns normally, the pose accessor returns \<open>p\<close>, the
  joint still refers to the same graph and vertex, and the vertex of that id now has the
  transform of \<open>p\<close> as payload, its id and name unchanged: the payload the pose resolver
  reads is the one of the stored pose.
\<close>

theorem SetPose_updates_vertex:
  assumes "VertexFromId (frameVertexId d) (st (frameGraph d)) = Some v"
  shows "\<exists>d' st'.
           SetPose M p d st = Inr (d', st') \<and>
           Pose d' = p \<and>
           frameGraph d' = frameGraph d \<and> frameVertexId d' = frameVertexId d \<and>
           VertexFromId (frameVertexId d') (st' (frameGraph d')) = Some (v\<lparr>Data := M p\<rparr>)"
  using assms
  by (simp add: SetPose_def Let_def Pose_def VertexFromId_def find_SetData)

text \<open>
  C8 at the joint the constructor made and the pose 7.
\<close>

theorem SetPose_updates_vertex_witness:
  "VertexFromId (frameVertexId ex_joint) (ex_store0 (frameGraph ex_joint)) =
     Some \<lparr>Id = 0, VName = [], Data = 0\<rparr> \<and>
   (\<exists>d' st'.
      SetPose ex_Matrix4d 7 ex_joint ex_store0 = Inr (d', st') \<and>
      Pose d' = 7 \<and>
      frameGraph d' = frameGraph ex_joint \<and> frameVertexId d' = frameVertexId ex_joint \<and>
      VertexFromId (frameVertexId d') (st' (frameGraph d')) =
        Some \<lparr>Id = 0, VName = [], Data = 7\<rparr>)"
proof -
  have h: "VertexFromId (frameVertexId ex_joint) (ex_store0 (frameGraph ex_joint)) =
             Some \<lparr>Id = 0, VName = [], Data = 0\<rparr>"
    by (simp add: VertexFromId_def ex_joint_eq ex_store0_eq)
  from SetPose_updates_vertex [where d = ex_joint and st = ex_store0 and M = ex_Matrix4d
      and p = 7 and v = "\<lparr>Id = 0, VName = [], Data = 0\<rparr>"] h
  show ?thesis by (simp add: ex_Matrix4d_def)
qed

text \<open>
  C9. For every name, \<open>SetParentLinkName\<close> and \<open>SetChildLinkName\<close> leave the store of
  graphs as it is, the accessor of the field returns the new name, and putting the old
  name back gives the joint's data as it was: no other field has changed.
\<close>

theorem name_setters_touch_one_field:
  "snd (SetParentLinkName n d st) = st \<and>
   ParentLinkName (fst (SetParentLinkName n d st)) = n \<and>
   (fst (SetParentLinkName n d st))\<lparr>parentLinkName := parentLinkName d\<rparr> = d \<and>
   snd (SetChildLinkName n d st) = st \<and>
   ChildLinkName (fst (SetChildLinkName n d st)) = n \<and>
   (fst (SetChildLinkName n d st))\<lparr>childLinkName := childLinkName d\<rparr> = d"
  by (simp add: SetParentLinkName_def SetChildLinkName_def ParentLinkName_def ChildLinkName_def)

text \<open>
  C10. For every string \<open>f\<close>, \<open>SetPoseFrame\<close> returns whether \<open>f\<close> is not empty; the
  pose-frame name afterwards is the one before when \<open>f\<close> is empty and \<open>f\<close> otherwise;
  no other field and no graph has changed.
\<close>

theorem SetPoseFrame_result:
  "fst (SetPoseFrame f d st) = (f \<noteq> []) \<and>
   PoseFrame (fst (snd (SetPoseFrame f d st))) = (if f = [] then PoseFrame d else f) \<and>
   (fst (snd (SetPoseFrame f d st)))\<lparr>poseFrame := poseFrame d\<rparr> = d \<and>
   snd (snd (SetPoseFrame f d st)) = st"
  by (simp add: SetPoseFrame_def PoseFrame_def)

end
